theory Spec2Isabelle
  imports Complex_Main
begin

section \<open>Rate limiter (\<open>src/core/rate_limiter.js\<close>)\<close>

text \<open>
  The two settings \<open>calculateMinTime\<close> reads: \<open>SETTINGS.RATE_LIMITING.RANDOMIZE_DELAYS\<close>
  and \<open>SETTINGS.SECURITY.MIN_REQUEST_INTERVAL\<close> (an integer, \<open>parseInteger\<close>).
\<close>

record rate_settings =
  RANDOMIZE_DELAYS :: bool
  MIN_REQUEST_INTERVAL :: int

text \<open>
  \<open>calculateMinTime(requestsPerMinute)\<close>. JavaScript numbers are taken as reals;
  the value of \<open>Math.random()\<close> is the explicit argument \<open>rnd\<close>.
\<close>

definition calculateMinTime :: "rate_settings \<Rightarrow> real \<Rightarrow> real \<Rightarrow> real" where
  "calculateMinTime S rnd requestsPerMinute =
     (let baseMinTime = real_of_int \<lfloor>60000 / requestsPerMinute\<rfloor> in
      if RANDOMIZE_DELAYS S then
        (let jitter = rnd * 0.2 * baseMinTime in
         max (baseMinTime + jitter) (real_of_int (MIN_REQUEST_INTERVAL S)))
      else max baseMinTime (real_of_int (MIN_REQUEST_INTERVAL S)))"

section \<open>Proxy manager (\<open>src/core/proxy_manager.js\<close>, class \<open>ProxyManager\<close>)\<close>

type_synonym proxy = string

text \<open>
  The per-proxy hash under \<open>bluesky:proxies:stats:\<close> followed by the proxy. A field
  that is absent reads as \<open>'0'\<close> in the source, so the counters are total; the time
  stamps (\<open>lastUsed\<close>, \<open>lastSuccess\<close>, \<open>lastFailure\<close>) are left out.
\<close>

record proxy_stats =
  requests :: nat
  successes :: nat
  failures :: nat
  consecutiveFailures :: nat

definition no_stats :: proxy_stats where
  "no_stats = \<lparr>requests = 0, successes = 0, failures = 0, consecutiveFailures = 0\<rparr>"

text \<open>
  The manager together with the Redis keys it works on. \<open>redisClient\<close> is \<open>False\<close> for
  the \<open>null\<close> client; \<open>pm_isInitialized\<close> is the manager's \<open>isInitialized\<close>. A Redis set
  is a duplicate-free list (\<open>sMembers\<close> returns it); a Redis command on a connected
  client is taken to succeed. \<open>pendingTimers\<close> holds the \<open>setTimeout\<close> callbacks of
  \<open>markProxyRateLimited\<close> that have not run yet, each with the time at which it is due;
  \<open>clock\<close> is the current time in ms.
\<close>

record proxy_manager =
  redisClient :: bool
  pm_isInitialized :: bool
  PROXIES :: "proxy list"
  HEALTHY_PROXIES :: "proxy list"
  UNHEALTHY_PROXIES :: "proxy list"
  RATE_LIMITED :: "proxy list"
  STATS :: "proxy \<Rightarrow> proxy_stats"
  pendingTimers :: "(nat \<times> proxy) list"
  clock :: nat

text \<open>
  \<open>SETTINGS.PROXY.MAX_CONSECUTIVE_FAILURES\<close>, read by \<open>markProxyFailure\<close>.
  \<open>src/config/settings.js\<close> defines no such key, so the read gives \<open>undefined\<close>
  (\<open>None\<close>) with the settings as they are; \<open>Some n\<close> stands for a settings object
  that carries the key.
\<close>

type_synonym proxy_settings = "nat option"

definition sAdd :: "'a list \<Rightarrow> 'a list \<Rightarrow> 'a list" where
  "sAdd s ms = s @ remdups (filter (\<lambda>m. m \<notin> set s) ms)"

definition sRem :: "'a list \<Rightarrow> 'a list \<Rightarrow> 'a list" where
  "sRem s ms = filter (\<lambda>x. x \<notin> set ms) s"

definition sIsMember :: "'a list \<Rightarrow> 'a \<Rightarrow> bool" where
  "sIsMember s m = (m \<in> set s)"

definition addProxies :: "proxy list \<Rightarrow> proxy_manager \<Rightarrow> proxy_manager" where
  "addProxies proxies s =
     (if \<not> redisClient s then s
      else if length proxies > 0 then
        s\<lparr>PROXIES := sAdd (PROXIES s) proxies,
          HEALTHY_PROXIES := sAdd (HEALTHY_PROXIES s) proxies\<rparr>
      else s)"

definition removeProxies :: "proxy list \<Rightarrow> proxy_manager \<Rightarrow> proxy_manager" where
  "removeProxies proxies s =
     (if \<not> redisClient s then s
      else if length proxies > 0 then
        s\<lparr>PROXIES := sRem (PROXIES s) proxies,
          HEALTHY_PROXIES := sRem (HEALTHY_PROXIES s) proxies,
          UNHEALTHY_PROXIES := sRem (UNHEALTHY_PROXIES s) proxies,
          RATE_LIMITED := sRem (RATE_LIMITED s) proxies\<rparr>
      else s)"

datatype stats_action = Request | Success | Failure

text \<open>
  \<open>updateProxyStats(proxy, action, additionalData)\<close>; the only additional datum that
  is ever read back is \<open>consecutiveFailures\<close>, given here as an option.
\<close>

definition updateProxyStats ::
  "proxy \<Rightarrow> stats_action \<Rightarrow> nat option \<Rightarrow> proxy_manager \<Rightarrow> proxy_manager" where
  "updateProxyStats p action additional s =
     (if \<not> redisClient s then s
      else
        (let st = STATS s p;
             st1 = (case additional of None \<Rightarrow> st | Some n \<Rightarrow> st\<lparr>consecutiveFailures := n\<rparr>);
             st2 = (case action of
                      Request \<Rightarrow> st1\<lparr>requests := requests st + 1\<rparr>
                    | Success \<Rightarrow> st1\<lparr>successes := successes st + 1, consecutiveFailures := 0\<rparr>
                    | Failure \<Rightarrow> st1\<lparr>failures := failures st + 1\<rparr>)
         in s\<lparr>STATS := (STATS s)(p := st2)\<rparr>))"

text \<open>
  \<open>getRandomProxy()\<close>, with the value of \<open>Math.random()\<close> as the argument \<open>rnd\<close>.
  For \<open>0 \<le> rnd < 1\<close> the index is within the list; outside that range the source
  would read \<open>undefined\<close>, given here as \<open>None\<close>.
\<close>

definition getRandomProxy :: "real \<Rightarrow> proxy_manager \<Rightarrow> proxy option \<times> proxy_manager" where
  "getRandomProxy rnd s =
     (if \<not> redisClient s then (None, s)
      else
        (let healthyProxies = HEALTHY_PROXIES s in
         if length healthyProxies = 0 then (None, s)
         else
           (let randomIndex = nat \<lfloor>rnd * real (length healthyProxies)\<rfloor> in
            if randomIndex < length healthyProxies then
              (let selectedProxy = healthyProxies ! randomIndex in
               (Some selectedProxy, updateProxyStats selectedProxy Request None s))
            else (None, s))))"

definition markProxySuccess :: "proxy \<Rightarrow> proxy_manager \<Rightarrow> proxy_manager" where
  "markProxySuccess p s =
     (if \<not> redisClient s then s
      else
        updateProxyStats p Success None
          (s\<lparr>HEALTHY_PROXIES := sAdd (HEALTHY_PROXIES s) [p],
             UNHEALTHY_PROXIES := sRem (UNHEALTHY_PROXIES s) [p],
             RATE_LIMITED := sRem (RATE_LIMITED s) [p]\<rparr>))"

text \<open>
  The comparison \<open>consecutiveFailures >= SETTINGS.PROXY.MAX_CONSECUTIVE_FAILURES\<close>:
  against \<open>undefined\<close> it is false.
\<close>

definition reached_threshold :: "nat \<Rightarrow> proxy_settings \<Rightarrow> bool" where
  "reached_threshold n thr = (case thr of None \<Rightarrow> False | Some m \<Rightarrow> n \<ge> m)"

definition markProxyFailure :: "proxy_settings \<Rightarrow> proxy \<Rightarrow> proxy_manager \<Rightarrow> proxy_manager" where
  "markProxyFailure thr p s =
     (if \<not> redisClient s then s
      else
        (let n = consecutiveFailures (STATS s p) + 1;
             s1 = updateProxyStats p Failure (Some n) s
         in if reached_threshold n thr then
              s1\<lparr>HEALTHY_PROXIES := sRem (HEALTHY_PROXIES s1) [p],
                 UNHEALTHY_PROXIES := sAdd (UNHEALTHY_PROXIES s1) [p]\<rparr>
            else s1))"

text \<open>
  \<open>markProxyRateLimited(proxy, duration)\<close>: the two set updates, and the
  \<open>setTimeout\<close> callback registered as a pending timer due at \<open>clock + duration\<close>.
\<close>

definition markProxyRateLimited :: "proxy \<Rightarrow> nat \<Rightarrow> proxy_manager \<Rightarrow> proxy_manager" where
  "markProxyRateLimited p duration s =
     (if \<not> redisClient s then s
      else
        s\<lparr>RATE_LIMITED := sAdd (RATE_LIMITED s) [p],
          HEALTHY_PROXIES := sRem (HEALTHY_PROXIES s) [p],
          pendingTimers := pendingTimers s @ [(clock s + duration, p)]\<rparr>)"

text \<open>The body of the \<open>setTimeout\<close> callback of \<open>markProxyRateLimited\<close>.\<close>

definition rateLimitExpired :: "proxy \<Rightarrow> proxy_manager \<Rightarrow> proxy_manager" where
  "rateLimitExpired p s =
     (if \<not> redisClient s then s
      else
        (let s1 = s\<lparr>RATE_LIMITED := sRem (RATE_LIMITED s) [p]\<rparr>;
             isUnhealthy = sIsMember (UNHEALTHY_PROXIES s1) p
         in if \<not> isUnhealthy then s1\<lparr>HEALTHY_PROXIES := sAdd (HEALTHY_PROXIES s1) [p]\<rparr>
            else s1))"

text \<open>
  Time passing: the clock moves on by \<open>d\<close> ms and the timers that are due run, earliest
  first (timers due at the same time in the order they were set).
\<close>

definition elapse :: "nat \<Rightarrow> proxy_manager \<Rightarrow> proxy_manager" where
  "elapse d s =
     (let t = clock s + d;
          due = sort_key fst (filter (\<lambda>tm. fst tm \<le> t) (pendingTimers s));
          rest = filter (\<lambda>tm. \<not> fst tm \<le> t) (pendingTimers s)
      in fold (\<lambda>tm. rateLimitExpired (snd tm)) due (s\<lparr>clock := t, pendingTimers := rest\<rparr>))"

datatype pm_event =
    AddProxies "proxy list"
  | RemoveProxies "proxy list"
  | MarkSuccess proxy
  | MarkFailure proxy
  | MarkRateLimited proxy nat
  | Elapse nat

fun pm_step :: "proxy_settings \<Rightarrow> proxy_manager \<Rightarrow> pm_event \<Rightarrow> proxy_manager" where
  "pm_step thr s (AddProxies ps) = addProxies ps s"
| "pm_step thr s (RemoveProxies ps) = removeProxies ps s"
| "pm_step thr s (MarkSuccess p) = markProxySuccess p s"
| "pm_step thr s (MarkFailure p) = markProxyFailure thr p s"
| "pm_step thr s (MarkRateLimited p d) = markProxyRateLimited p d s"
| "pm_step thr s (Elapse d) = elapse d s"

definition pm_run :: "proxy_settings \<Rightarrow> proxy_manager \<Rightarrow> pm_event list \<Rightarrow> proxy_manager" where
  "pm_run thr s evs = foldl (pm_step thr) s evs"

text \<open>A connected manager on an empty store.\<close>

definition pm_connected :: proxy_manager where
  "pm_connected =
     \<lparr>redisClient = True, pm_isInitialized = True, PROXIES = [], HEALTHY_PROXIES = [],
      UNHEALTHY_PROXIES = [], RATE_LIMITED = [], STATS = (\<lambda>_. no_stats),
      pendingTimers = [], clock = 0\<rparr>"

text \<open>
  The three status sets as an invariant: a healthy proxy is in no other status set, and
  every registered proxy is in at least one status set.
\<close>

definition status_inv :: "proxy_manager \<Rightarrow> bool" where
  "status_inv s =
     ((\<forall>p \<in> set (HEALTHY_PROXIES s).
          p \<notin> set (UNHEALTHY_PROXIES s) \<and> p \<notin> set (RATE_LIMITED s))
      \<and> (\<forall>p \<in> set (PROXIES s).
            p \<in> set (HEALTHY_PROXIES s) \<or> p \<in> set (UNHEALTHY_PROXIES s)
            \<or> p \<in> set (RATE_LIMITED s)))"

fun is_registration :: "pm_event \<Rightarrow> bool" where
  "is_registration (AddProxies ps) = True"
| "is_registration _ = False"

text \<open>Example runs of the proxy manager, used below.\<close>

definition example_proxy :: proxy where
  "example_proxy = ''http://10.0.0.1:8080''"

definition run_limited_then_failed :: proxy_manager where
  "run_limited_then_failed =
     pm_run (Some 3) pm_connected
       [AddProxies [example_proxy], MarkRateLimited example_proxy 60000,
        MarkFailure example_proxy, MarkFailure example_proxy, MarkFailure example_proxy]"

definition run_limited_then_registered :: proxy_manager where
  "run_limited_then_registered =
     pm_run None pm_connected
       [AddProxies [example_proxy], MarkRateLimited example_proxy 60000,
        AddProxies [example_proxy]]"

definition run_removed_during_cooldown :: proxy_manager where
  "run_removed_during_cooldown =
     pm_run None pm_connected
       [AddProxies [example_proxy], MarkRateLimited example_proxy 60000,
        RemoveProxies [example_proxy], Elapse 60000]"

text \<open>Errors raised by the code, as values.\<close>

datatype js_error = Error string | TypeError string | RedisError

text \<open>
  \<open>ProxyManager.initialize()\<close>. \<open>reachable\<close> says whether \<open>redisClient.connect()\<close>
  succeeds; \<open>validProxies\<close> is the list \<open>loadInitialProxies\<close> passes to \<open>addProxies\<close>
  (the entries of \<open>SETTINGS.PROXY.LIST\<close> that parse and validate). The \<open>catch\<close> block
  sets the client to \<open>null\<close> and does not re-raise, so the result is always a manager.
  The periodic health check started here reaches the sets only through
  \<open>markProxySuccess\<close> and \<open>markProxyFailure\<close>.
\<close>

definition ProxyManager_new :: proxy_manager where
  "ProxyManager_new =
     \<lparr>redisClient = False, pm_isInitialized = False, PROXIES = [], HEALTHY_PROXIES = [],
      UNHEALTHY_PROXIES = [], RATE_LIMITED = [], STATS = (\<lambda>_. no_stats),
      pendingTimers = [], clock = 0\<rparr>"

definition ProxyManager_initialize ::
  "bool \<Rightarrow> proxy list \<Rightarrow> proxy_manager \<Rightarrow> js_error + proxy_manager" where
  "ProxyManager_initialize reachable validProxies s =
     (if pm_isInitialized s then Inr s
      else if reachable then
        (let s1 = s\<lparr>redisClient := True\<rparr>;
             s2 = (if length validProxies > 0 then addProxies validProxies s1 else s1)
         in Inr (s2\<lparr>pm_isInitialized := True\<rparr>))
      else Inr (s\<lparr>redisClient := False\<rparr>))"

section \<open>Deduplicator (\<open>src/utils/deduplicator.js\<close>)\<close>

text \<open>
  The entity types: the keys of \<open>this.bloomFilters\<close>, and the key prefix each
  \<open>is...Duplicate\<close> / \<open>mark...Processed\<close> method writes in front of the hash.
\<close>

datatype namespace = Users | Posts | Follows

fun type_name :: "namespace \<Rightarrow> string" where
  "type_name Users = ''users''"
| "type_name Posts = ''posts''"
| "type_name Follows = ''follows''"

fun record_prefix :: "namespace \<Rightarrow> string" where
  "record_prefix Users = ''user:''"
| "record_prefix Posts = ''post:''"
| "record_prefix Follows = ''follow:''"

text \<open>
  What the code takes from libraries: \<open>sha256\<close> is \<open>hashIdentifier\<close>
  (\<open>crypto.createHash('sha256')\<close>, hex digest); \<open>indexes\<close> gives the bit positions the
  \<open>bloom-filters\<close> package derives from an element. A filter is the set of its set bits:
  \<open>add\<close> sets the element's bits and \<open>has\<close> tests them. The class \<open>BloomFilter\<close> of
  the package, in the version the repository asks for (\<open>^3.0.1\<close>), has no method
  \<open>clear\<close>: the call \<open>this.bloomFilters[t].clear()\<close> raises a \<open>TypeError\<close>.
\<close>

record hashing =
  sha256 :: "string \<Rightarrow> string"
  indexes :: "string \<Rightarrow> nat set"

type_synonym BloomFilter = "nat set"

definition BloomFilter_has :: "hashing \<Rightarrow> BloomFilter \<Rightarrow> string \<Rightarrow> bool" where
  "BloomFilter_has H f e = (indexes H e \<subseteq> f)"

definition BloomFilter_add :: "hashing \<Rightarrow> BloomFilter \<Rightarrow> string \<Rightarrow> BloomFilter" where
  "BloomFilter_add H f e = f \<union> indexes H e"

definition BloomFilter_clear :: "BloomFilter \<Rightarrow> js_error + BloomFilter" where
  "BloomFilter_clear f = Inl (TypeError ''this.bloomFilters[t].clear is not a function'')"

text \<open>
  A Redis value: a record written by \<open>setEx\<close> (the identifier it was written for and the
  second at which it expires; the rest of the JSON payload is left out), or a saved filter.
  \<open>exists\<close> at second \<open>t\<close>: a record counts until its expiry time has passed.
\<close>

datatype redis_value = Record string nat | Blob BloomFilter

definition redis_exists :: "(string \<rightharpoonup> redis_value) \<Rightarrow> string \<Rightarrow> nat \<Rightarrow> bool" where
  "redis_exists store k t =
     (case store k of
        None \<Rightarrow> False
      | Some (Record _ expiry) \<Rightarrow> t \<le> expiry
      | Some (Blob _) \<Rightarrow> True)"

record dedup_stats =
  checked :: nat
  duplicates :: nat
  added :: nat

definition zero_stats :: dedup_stats where
  "zero_stats = \<lparr>checked = 0, duplicates = 0, added = 0\<rparr>"

text \<open>
  The deduplicator together with the Redis store it talks to. \<open>redisUp\<close> says whether
  the client is open (a command on a client that is not open rejects). Once
  \<open>isInitialized\<close> is set every filter exists, so the filters are total.
\<close>

record Deduplicator =
  isInitialized :: bool
  bloomFilters :: "namespace \<Rightarrow> BloomFilter"
  stats :: "namespace \<Rightarrow> dedup_stats"
  redisUp :: bool
  redis :: "string \<rightharpoonup> redis_value"

definition Deduplicator_new :: "(string \<rightharpoonup> redis_value) \<Rightarrow> Deduplicator" where
  "Deduplicator_new store =
     \<lparr>isInitialized = False, bloomFilters = (\<lambda>_. {}), stats = (\<lambda>_. zero_stats),
      redisUp = False, redis = store\<rparr>"

text \<open>
  \<open>initialize()\<close>: when \<open>connect()\<close> fails the error is logged and thrown again. Otherwise
  each filter is loaded from \<open>bloom:<type>\<close> or created empty.
\<close>

definition Deduplicator_initialize :: "bool \<Rightarrow> Deduplicator \<Rightarrow> js_error + Deduplicator" where
  "Deduplicator_initialize reachable d =
     (if \<not> reachable then Inl RedisError
      else Inr (d\<lparr>redisUp := True,
                  bloomFilters := (\<lambda>ns. case redis d (''bloom:'' @ type_name ns) of
                                          Some (Blob f) \<Rightarrow> f
                                        | _ \<Rightarrow> {}),
                  isInitialized := True\<rparr>))"

text \<open>
  \<open>isUserDuplicate\<close>, \<open>isPostDuplicate\<close> and \<open>isFollowDuplicate\<close> have one body up to the
  type; \<open>t\<close> is the time of the call in seconds. The result is the value returned or the
  error thrown, with the state the call leaves behind.
\<close>

definition isDuplicate ::
  "hashing \<Rightarrow> namespace \<Rightarrow> string \<Rightarrow> nat \<Rightarrow> Deduplicator \<Rightarrow> (js_error + bool) \<times> Deduplicator" where
  "isDuplicate H ns identifier t d =
     (if \<not> isInitialized d then (Inl (Error ''Deduplicator not initialized''), d)
      else
        (let d1 = d\<lparr>stats := (stats d)(ns := (stats d ns)\<lparr>checked := checked (stats d ns) + 1\<rparr>)\<rparr>;
             hash = sha256 H identifier
         in if \<not> BloomFilter_has H (bloomFilters d1 ns) hash then (Inr False, d1)
            else if \<not> redisUp d1 then (Inl RedisError, d1)
            else if redis_exists (redis d1) (record_prefix ns @ hash) t then
              (Inr True,
               d1\<lparr>stats := (stats d1)(ns := (stats d1 ns)\<lparr>duplicates := duplicates (stats d1 ns) + 1\<rparr>)\<rparr>)
            else (Inr False, d1)))"

definition isUserDuplicate ::
  "hashing \<Rightarrow> string \<Rightarrow> nat \<Rightarrow> Deduplicator \<Rightarrow> (js_error + bool) \<times> Deduplicator" where
  "isUserDuplicate H userIdentifier = isDuplicate H Users userIdentifier"

definition isPostDuplicate ::
  "hashing \<Rightarrow> string \<Rightarrow> nat \<Rightarrow> Deduplicator \<Rightarrow> (js_error + bool) \<times> Deduplicator" where
  "isPostDuplicate H postUri = isDuplicate H Posts postUri"

definition isFollowDuplicate ::
  "hashing \<Rightarrow> string \<Rightarrow> string \<Rightarrow> nat \<Rightarrow> Deduplicator \<Rightarrow> (js_error + bool) \<times> Deduplicator" where
  "isFollowDuplicate H followerDid followeeDid =
     (let relationshipId = followerDid @ '':'' @ followeeDid
      in isDuplicate H Follows relationshipId)"

text \<open>
  \<open>markUserProcessed\<close>, \<open>markPostProcessed\<close>, \<open>markFollowProcessed\<close>: the filter is
  updated first, then the record is written with a time to live of \<open>86400 * 7\<close> seconds.
\<close>

definition markProcessed ::
  "hashing \<Rightarrow> namespace \<Rightarrow> string \<Rightarrow> nat \<Rightarrow> Deduplicator \<Rightarrow> (js_error + unit) \<times> Deduplicator" where
  "markProcessed H ns identifier t d =
     (if \<not> isInitialized d then (Inl (Error ''Deduplicator not initialized''), d)
      else
        (let hash = sha256 H identifier;
             d1 = d\<lparr>bloomFilters := (bloomFilters d)(ns := BloomFilter_add H (bloomFilters d ns) hash)\<rparr>
         in if \<not> redisUp d1 then (Inl RedisError, d1)
            else
              (Inr (),
               d1\<lparr>redis := (redis d1)(record_prefix ns @ hash \<mapsto> Record identifier (t + 86400 * 7)),
                  stats := (stats d1)(ns := (stats d1 ns)\<lparr>added := added (stats d1 ns) + 1\<rparr>)\<rparr>)))"

definition markUserProcessed ::
  "hashing \<Rightarrow> string \<Rightarrow> nat \<Rightarrow> Deduplicator \<Rightarrow> (js_error + unit) \<times> Deduplicator" where
  "markUserProcessed H userIdentifier = markProcessed H Users userIdentifier"

definition markPostProcessed ::
  "hashing \<Rightarrow> string \<Rightarrow> nat \<Rightarrow> Deduplicator \<Rightarrow> (js_error + unit) \<times> Deduplicator" where
  "markPostProcessed H postUri = markProcessed H Posts postUri"

definition markFollowProcessed ::
  "hashing \<Rightarrow> string \<Rightarrow> string \<Rightarrow> nat \<Rightarrow> Deduplicator \<Rightarrow> (js_error + unit) \<times> Deduplicator" where
  "markFollowProcessed H followerDid followeeDid =
     (let relationshipId = followerDid @ '':'' @ followeeDid
      in markProcessed H Follows relationshipId)"

text \<open>
  \<open>clear(type)\<close>. For each type \<open>t\<close> the first statement is the call of \<open>clear\<close> on the
  filter, outside any \<open>try\<close>; its error leaves \<open>clear(type)\<close> at once, with nothing
  changed. The statements after it would delete the keys matching the pattern \<open>t:*\<close>
  (\<open>t\<close> followed by a colon, then anything) and the saved filter \<open>bloom:t\<close>, and reset
  the counters.
\<close>

datatype clear_type = All | Only namespace

definition matches_pattern :: "string \<Rightarrow> string \<Rightarrow> bool" where
  "matches_pattern t k = (take (length (t @ '':'')) k = t @ '':'')"

definition clear_one :: "namespace \<Rightarrow> Deduplicator \<Rightarrow> (js_error + unit) \<times> Deduplicator" where
  "clear_one ns d =
     (case BloomFilter_clear (bloomFilters d ns) of
        Inl e \<Rightarrow> (Inl e, d)
      | Inr cleared \<Rightarrow>
          (let d1 = d\<lparr>bloomFilters := (bloomFilters d)(ns := cleared)\<rparr>
           in if \<not> redisUp d1 then (Inl RedisError, d1)
              else
                (let kept = (\<lambda>k. if matches_pattern (type_name ns) k then None else redis d1 k);
                     kept2 = kept(''bloom:'' @ type_name ns := None)
                 in (Inr (), d1\<lparr>redis := kept2, stats := (stats d1)(ns := zero_stats)\<rparr>))))"

fun clear_types :: "namespace list \<Rightarrow> Deduplicator \<Rightarrow> (js_error + unit) \<times> Deduplicator" where
  "clear_types [] d = (Inr (), d)"
| "clear_types (ns # rest) d =
     (case clear_one ns d of
        (Inl e, d1) \<Rightarrow> (Inl e, d1)
      | (Inr _, d1) \<Rightarrow> clear_types rest d1)"

definition clear :: "clear_type \<Rightarrow> Deduplicator \<Rightarrow> (js_error + unit) \<times> Deduplicator" where
  "clear ty d =
     (if \<not> isInitialized d then (Inl (Error ''Deduplicator not initialized''), d)
      else
        (let types = (case ty of All \<Rightarrow> [Users, Posts, Follows] | Only ns \<Rightarrow> [ns])
         in clear_types types d))"

text \<open>Calls on a deduplicator as events, each at its time; an error leaves the state it left.\<close>

datatype dedup_event =
    Mark namespace string nat
  | Check namespace string nat
  | Clear clear_type

fun dedup_step :: "hashing \<Rightarrow> Deduplicator \<Rightarrow> dedup_event \<Rightarrow> Deduplicator" where
  "dedup_step H d (Mark ns x t) = snd (markProcessed H ns x t d)"
| "dedup_step H d (Check ns x t) = snd (isDuplicate H ns x t d)"
| "dedup_step H d (Clear ty) = snd (clear ty d)"

definition dedup_run :: "hashing \<Rightarrow> Deduplicator \<Rightarrow> dedup_event list \<Rightarrow> Deduplicator" where
  "dedup_run H d evs = foldl (dedup_step H) d evs"

text \<open>An event that writes the record key of \<open>x\<close> in \<open>ns\<close> again, or clears.\<close>

fun touches :: "hashing \<Rightarrow> namespace \<Rightarrow> string \<Rightarrow> dedup_event \<Rightarrow> bool" where
  "touches H ns x (Mark ns' y t) =
     (record_prefix ns' @ sha256 H y = record_prefix ns @ sha256 H x)"
| "touches H ns x (Check ns' y t) = False"
| "touches H ns x (Clear ty) = True"

text \<open>
  What a successful \<open>markProcessed\<close> of \<open>x\<close> leaves behind: the bits of \<open>x\<close> in the
  filter of its type and the record of \<open>x\<close>, expiring at \<open>e\<close>.
\<close>

definition holds :: "hashing \<Rightarrow> namespace \<Rightarrow> string \<Rightarrow> nat \<Rightarrow> Deduplicator \<Rightarrow> bool" where
  "holds H ns x e d =
     (isInitialized d \<and> redisUp d
      \<and> indexes H (sha256 H x) \<subseteq> bloomFilters d ns
      \<and> redis d (record_prefix ns @ sha256 H x) = Some (Record x e))"


text \<open>Stand-ins for the library functions, and an initialized deduplicator on an empty store.\<close>

definition example_hashing :: hashing where
  "example_hashing = \<lparr>sha256 = (\<lambda>s. s), indexes = (\<lambda>s. {length s})\<rparr>"

definition dedup_ready :: Deduplicator where
  "dedup_ready =
     \<lparr>isInitialized = True, bloomFilters = (\<lambda>_. {}), stats = (\<lambda>_. zero_stats),
      redisUp = True, redis = Map.empty\<rparr>"


section \<open>Checkpoint manager (class \<open>CheckpointManager\<close>, second part of \<open>src/core/proxy_manager.js\<close>)\<close>

text \<open>
  A checkpoint as \<open>createCheckpoint\<close> writes it (the metadata is left out); \<open>cp_timestamp\<close>
  is the time of creation in ms, \<open>cp_counter\<close> the sequence number.
\<close>

record 'st Checkpoint =
  cp_id :: string
  cp_scraperType :: string
  cp_sessionId :: string
  cp_timestamp :: int
  cp_counter :: nat
  cp_state :: 'st

record checkpoint_settings =
  AUTO_CHECKPOINT :: bool
  CHECKPOINT_FREQUENCY :: int
  BACKUP_CHECKPOINTS :: bool
  MAX_CHECKPOINT_AGE :: int

text \<open>
  The manager with its checkpoint directory: each file with its name and the checkpoint
  \<open>readJson\<close> yields for it (\<open>None\<close>: the file does not parse), in the order of \<open>readdir\<close>.
  The constructor starts the counter at 0.
\<close>

record 'st CheckpointManager =
  scraperType :: string
  sessionId :: string
  checkpointCounter :: nat
  currentCheckpoint :: "'st Checkpoint option"
  lastCheckpointTime :: "int option"
  files :: "(string \<times> 'st Checkpoint option) list"

definition CheckpointManager_new ::
  "string \<Rightarrow> string \<Rightarrow> (string \<times> 'st Checkpoint option) list \<Rightarrow> 'st CheckpointManager" where
  "CheckpointManager_new ty session dir =
     \<lparr>scraperType = ty, sessionId = session, checkpointCounter = 0,
      currentCheckpoint = None, lastCheckpointTime = None, files = dir\<rparr>"

definition startsWith :: "string \<Rightarrow> string \<Rightarrow> bool" where
  "startsWith s p = (take (length p) s = p)"

definition endsWith :: "string \<Rightarrow> string \<Rightarrow> bool" where
  "endsWith s p = (length p \<le> length s \<and> drop (length s - length p) s = p)"

definition pathExists :: "string \<Rightarrow> (string \<times> 'c) list \<Rightarrow> bool" where
  "pathExists name dir = (name \<in> fst ` set dir)"

definition writeFile :: "string \<Rightarrow> 'c \<Rightarrow> (string \<times> 'c) list \<Rightarrow> (string \<times> 'c) list" where
  "writeFile name content dir =
     (if pathExists name dir
      then map (\<lambda>(n, c). if n = name then (n, content) else (n, c)) dir
      else dir @ [(name, content)])"

definition removeFile :: "string \<Rightarrow> (string \<times> 'c) list \<Rightarrow> (string \<times> 'c) list" where
  "removeFile name dir = filter (\<lambda>(n, c). n \<noteq> name) dir"

definition listCheckpoints :: "'st CheckpointManager \<Rightarrow> 'st Checkpoint list" where
  "listCheckpoints m =
     (let checkpointFiles =
            filter (\<lambda>(file, c). startsWith file (scraperType m) \<and> endsWith file ''.json'') (files m)
      in List.map_filter snd checkpointFiles)"

definition deleteCheckpoint :: "string \<Rightarrow> 'st CheckpointManager \<Rightarrow> bool \<times> 'st CheckpointManager" where
  "deleteCheckpoint checkpointId m =
     (let checkpointPath = checkpointId @ ''.json'' in
      if pathExists checkpointPath (files m) then
        (let dir1 = removeFile checkpointPath (files m);
             backupPath = checkpointPath @ ''.backup'';
             dir2 = (if pathExists backupPath dir1 then removeFile backupPath dir1 else dir1)
         in (True, m\<lparr>files := dir2\<rparr>))
      else (False, m))"

definition createBackup :: "string \<Rightarrow> 'st CheckpointManager \<Rightarrow> 'st CheckpointManager" where
  "createBackup checkpointPath m =
     (case map_of (files m) checkpointPath of
        None \<Rightarrow> m
      | Some content \<Rightarrow> m\<lparr>files := writeFile (checkpointPath @ ''.backup'') content (files m)\<rparr>)"

definition cleanupOldCheckpoints ::
  "checkpoint_settings \<Rightarrow> 'st CheckpointManager \<Rightarrow> 'st CheckpointManager" where
  "cleanupOldCheckpoints S m =
     (let checkpoints = listCheckpoints m;
          maxCheckpoints = CHECKPOINT_FREQUENCY S * 2
      in if int (length checkpoints) \<le> maxCheckpoints then m
         else
           (let sorted = sort_key cp_timestamp checkpoints;
                checkpointsToDelete = take (nat (int (length sorted) - maxCheckpoints)) sorted
            in fold (\<lambda>c m'. snd (deleteCheckpoint (cp_id c) m')) checkpointsToDelete m))"

text \<open>Decimal digits of a number, for the counter at the end of a checkpoint id.\<close>

function show_nat :: "nat \<Rightarrow> string" where
  "show_nat n =
     (if n < 10 then [''0123456789'' ! n]
      else show_nat (n div 10) @ [''0123456789'' ! (n mod 10)])"
  by pat_completeness auto
termination
  by (relation "measure id") auto

declare show_nat.simps [simp del]

text \<open>
  \<open>createCheckpoint(state, metadata)\<close> at time \<open>now\<close> (ms). \<open>formatTime\<close> is the
  \<open>moment().format('YYYY-MM-DD_HH-mm-ss')\<close> of the library. The result is the new id, or
  \<open>null\<close> when checkpointing is switched off.
\<close>

definition createCheckpoint ::
  "checkpoint_settings \<Rightarrow> (int \<Rightarrow> string) \<Rightarrow> 'st \<Rightarrow> int \<Rightarrow> 'st CheckpointManager
     \<Rightarrow> string option \<times> 'st CheckpointManager" where
  "createCheckpoint S formatTime state now m =
     (if \<not> AUTO_CHECKPOINT S then (None, m)
      else
        (let counter = checkpointCounter m + 1;
             timestamp = formatTime now;
             checkpointId = scraperType m @ ''_'' @ sessionId m @ ''_'' @ timestamp @ ''_''
                            @ show_nat counter;
             checkpoint = \<lparr>cp_id = checkpointId, cp_scraperType = scraperType m,
                           cp_sessionId = sessionId m, cp_timestamp = now,
                           cp_counter = counter, cp_state = state\<rparr>;
             checkpointPath = checkpointId @ ''.json'';
             m1 = m\<lparr>checkpointCounter := counter,
                    files := writeFile checkpointPath (Some checkpoint) (files m),
                    currentCheckpoint := Some checkpoint,
                    lastCheckpointTime := Some now\<rparr>;
             m2 = (if BACKUP_CHECKPOINTS S then createBackup checkpointPath m1 else m1);
             m3 = cleanupOldCheckpoints S m2
         in (Some checkpointId, m3)))"

text \<open>
  \<open>loadLatestCheckpoint()\<close> at time \<open>now\<close> (ms). The checkpoints are sorted by time stamp,
  most recent first (the sort is stable), and the first one is taken; the maximum age is
  the setting when that is set and not 0, else 86400000.
\<close>

definition maxCheckpointAge :: "checkpoint_settings \<Rightarrow> int" where
  "maxCheckpointAge S = (if MAX_CHECKPOINT_AGE S \<noteq> 0 then MAX_CHECKPOINT_AGE S else 86400000)"

definition loadLatestCheckpoint ::
  "checkpoint_settings \<Rightarrow> int \<Rightarrow> 'st CheckpointManager
     \<Rightarrow> 'st Checkpoint option \<times> 'st CheckpointManager" where
  "loadLatestCheckpoint S now m =
     (let checkpoints = listCheckpoints m in
      if length checkpoints = 0 then (None, m)
      else
        (let sorted = sort_key (\<lambda>c. - cp_timestamp c) checkpoints;
             latestCheckpoint = hd sorted;
             checkpointAge = now - cp_timestamp latestCheckpoint
         in if checkpointAge > maxCheckpointAge S then (None, m)
            else (Some latestCheckpoint, m\<lparr>currentCheckpoint := Some latestCheckpoint\<rparr>)))"

text \<open>\<open>loadCheckpoint(checkpointId)\<close>: the file \<open>checkpointId.json\<close>, if it exists and parses.\<close>

definition loadCheckpoint ::
  "string \<Rightarrow> 'st CheckpointManager \<Rightarrow> 'st Checkpoint option \<times> 'st CheckpointManager" where
  "loadCheckpoint checkpointId m =
     (let checkpointPath = checkpointId @ ''.json'' in
      case map_of (files m) checkpointPath of
        None \<Rightarrow> (None, m)
      | Some None \<Rightarrow> (None, m)
      | Some (Some checkpoint) \<Rightarrow> (Some checkpoint, m\<lparr>currentCheckpoint := Some checkpoint\<rparr>))"

text \<open>
  A checkpoint directory after two sessions of one scraper type, used below. The first
  session's manager wrote its second checkpoint (counter 2) at time 2000; the manager of a
  later session, whose counter started again at 0, wrote its first (counter 1) at 3000.
\<close>

definition example_settings :: checkpoint_settings where
  "example_settings =
     \<lparr>AUTO_CHECKPOINT = True, CHECKPOINT_FREQUENCY = 5, BACKUP_CHECKPOINTS = False,
      MAX_CHECKPOINT_AGE = 86400000\<rparr>"

definition earlier_checkpoint :: "nat Checkpoint" where
  "earlier_checkpoint =
     \<lparr>cp_id = ''posts_scraper_a_t2_2'', cp_scraperType = ''posts_scraper'',
      cp_sessionId = ''a'', cp_timestamp = 2000, cp_counter = 2, cp_state = 20\<rparr>"

definition later_checkpoint :: "nat Checkpoint" where
  "later_checkpoint =
     \<lparr>cp_id = ''posts_scraper_b_t3_1'', cp_scraperType = ''posts_scraper'',
      cp_sessionId = ''b'', cp_timestamp = 3000, cp_counter = 1, cp_state = 30\<rparr>"

definition two_sessions :: "nat CheckpointManager" where
  "two_sessions =
     CheckpointManager_new ''posts_scraper'' ''c''
       [(''posts_scraper_a_t2_2.json'', Some earlier_checkpoint),
        (''posts_scraper_b_t3_1.json'', Some later_checkpoint)]"

section \<open>Data validator (class \<open>DataValidator\<close>, last part of \<open>src/scrapers/posts_scraper.js\<close>)\<close>

text \<open>
  A profile as the API returns it, and an item of a followers or follows listing. A missing
  string field is the empty string. A count is given by what \<open>parseInt\<close> makes of the
  field: \<open>Some\<close> of the integer, or \<open>None\<close> for \<open>NaN\<close>. Only the fields the crawler reads
  are kept.
\<close>

record profile =
  p_did :: string
  p_handle :: string
  p_followersCount :: "int option"
  p_followsCount :: "int option"

record follow_item =
  subject :: "profile option"

record valid_user =
  v_did :: string
  v_handle :: string
  v_followersCount :: nat
  v_followsCount :: nat

definition is_lower :: "char \<Rightarrow> bool" where
  "is_lower c = (c \<in> set ''abcdefghijklmnopqrstuvwxyz'')"

definition is_letter :: "char \<Rightarrow> bool" where
  "is_letter c = (is_lower c \<or> c \<in> set ''ABCDEFGHIJKLMNOPQRSTUVWXYZ'')"

definition is_alnum :: "char \<Rightarrow> bool" where
  "is_alnum c = (is_letter c \<or> c \<in> set ''0123456789'')"

text \<open>\<open>isValidDID\<close>: the pattern \<open>^did:[a-z]+:[a-zA-Z0-9._-]+$\<close>.\<close>

definition isValidDID :: "string \<Rightarrow> bool" where
  "isValidDID d =
     (take 4 d = ''did:''
      \<and> (let rest = drop 4 d;
              method = takeWhile is_lower rest;
              after = dropWhile is_lower rest
          in method \<noteq> []
             \<and> (case after of
                   [] \<Rightarrow> False
                 | c # ident \<Rightarrow>
                     c = CHR '':'' \<and> ident \<noteq> []
                     \<and> list_all (\<lambda>c. is_alnum c \<or> c \<in> set ''._-'') ident)))"

text \<open>
  \<open>isValidHandle\<close>: the pattern \<open>^[a-zA-Z0-9.-]+\.[a-zA-Z]{2,}$\<close>. The part after the
  last dot has at least two characters, all letters; the part before it is not empty and
  consists of letters, digits, dots and hyphens.
\<close>

definition isValidHandle :: "string \<Rightarrow> bool" where
  "isValidHandle h =
     (let r = rev h;
          tld = takeWhile (\<lambda>c. c \<noteq> CHR ''.'') r;
          before = dropWhile (\<lambda>c. c \<noteq> CHR ''.'') r
      in before \<noteq> [] \<and> length tld \<ge> 2 \<and> list_all is_letter tld
         \<and> tl before \<noteq> []
         \<and> list_all (\<lambda>c. is_alnum c \<or> c \<in> set ''.-'') (tl before))"

text \<open>
  \<open>sanitizeNumber(value)\<close>, as a function of what its \<open>parseInt(value)\<close> gives (\<open>None\<close>
  for \<open>NaN\<close>): 0 for \<open>NaN\<close>, else the maximum of 0 and the number.
\<close>

definition sanitizeNumber :: "int option \<Rightarrow> nat" where
  "sanitizeNumber v = (case v of None \<Rightarrow> 0 | Some num \<Rightarrow> nat (max 0 num))"

definition validateUser :: "profile \<Rightarrow> js_error + valid_user" where
  "validateUser u =
     (if p_did u = [] then Inl (Error ''Missing required user field: did'')
      else if p_handle u = [] then Inl (Error ''Missing required user field: handle'')
      else if \<not> isValidDID (p_did u) then Inl (Error ''Invalid DID format'')
      else if \<not> isValidHandle (p_handle u) then Inl (Error ''Invalid handle format'')
      else Inr \<lparr>v_did = p_did u, v_handle = p_handle u,
                v_followersCount = sanitizeNumber (p_followersCount u),
                v_followsCount = sanitizeNumber (p_followsCount u)\<rparr>)"

text \<open>\<open>validateFollow\<close>; of the validated item only the subject is kept.\<close>

definition validateFollow :: "follow_item \<Rightarrow> js_error + valid_user" where
  "validateFollow follow =
     (case subject follow of
        None \<Rightarrow> Inl (Error ''Missing required follow field: subject'')
      | Some u \<Rightarrow> validateUser u)"

text \<open>\<open>validateBatch(items, 'follow')\<close>: the valid items and the number of errors.\<close>

definition validateBatch :: "follow_item list \<Rightarrow> valid_user list \<times> nat" where
  "validateBatch items =
     (let results = map validateFollow items
      in (concat (map (\<lambda>r. case r of Inl e \<Rightarrow> [] | Inr v \<Rightarrow> [v]) results),
          length (filter isl results)))"

section \<open>Relationships scraper (class \<open>RelationshipsScraper\<close>, \<open>unnamed/part_001\<close>)\<close>

record user =
  did :: string
  handle :: string
  followersCount :: nat
  followsCount :: nat
  depth :: nat

datatype relationshipType = Follower | Following

record relationshipRecord =
  source_did :: string
  source_handle :: string
  target_did :: string
  target_handle :: string
  rel_type :: relationshipType
  rel_depth :: nat

record scraper_options =
  maxRelationships :: nat
  maxDepth :: nat
  saveInterval :: nat
  prioritizePopularUsers :: bool
  minFollowerCount :: nat

record scraper_stats =
  usersProcessed :: nat
  relationshipsDiscovered :: nat
  relationshipsProcessed :: nat
  relationshipsSaved :: nat
  duplicatesSkipped :: nat
  errors :: nat

text \<open>The state object \<open>saveCheckpoint\<close> builds (the options are left out).\<close>

record frontier_data =
  fd_currentDepth :: nat
  fd_processedUsers :: "string list"
  fd_depthQueues :: "(nat \<times> user list) list"
  fd_stats :: scraper_stats

text \<open>
  The scraper. \<open>processedUsers\<close> (a \<open>Set\<close>) is a duplicate-free list in insertion order,
  \<open>depthQueues\<close> (a \<open>Map\<close>) an association list in insertion order. \<open>savedBatches\<close> are the
  batches handed to the file manager so far: the edges emitted are those in
  \<open>savedBatches\<close> and \<open>currentBatch\<close>.
\<close>

record RelationshipsScraper =
  options :: scraper_options
  sc_stats :: scraper_stats
  currentBatch :: "relationshipRecord list"
  savedBatches :: "relationshipRecord list list"
  processedUsers :: "string list"
  depthQueues :: "(nat \<times> user list) list"
  deduplicator :: Deduplicator
  checkpointManager :: "frontier_data CheckpointManager"

definition Map_set :: "'k \<Rightarrow> 'v \<Rightarrow> ('k \<times> 'v) list \<Rightarrow> ('k \<times> 'v) list" where
  "Map_set k v m =
     (if k \<in> fst ` set m then map (\<lambda>(k', v'). if k' = k then (k', v) else (k', v')) m
      else m @ [(k, v)])"

definition zero_scraper_stats :: scraper_stats where
  "zero_scraper_stats =
     \<lparr>usersProcessed = 0, relationshipsDiscovered = 0, relationshipsProcessed = 0,
      relationshipsSaved = 0, duplicatesSkipped = 0, errors = 0\<rparr>"

text \<open>
  \<open>initialize()\<close>; \<open>reachable\<close> says whether Redis can be connected to. The API client
  and the file manager are taken to initialize without error. An error of
  \<open>deduplicator.initialize()\<close> is logged and thrown again.
\<close>

definition RelationshipsScraper_initialize ::
  "bool \<Rightarrow> RelationshipsScraper \<Rightarrow> js_error + RelationshipsScraper" where
  "RelationshipsScraper_initialize reachable s =
     (case Deduplicator_initialize reachable (deduplicator s) of
        Inl e \<Rightarrow> Inl e
      | Inr d \<Rightarrow>
          Inr (s\<lparr>deduplicator := d,
                 depthQueues := fold (\<lambda>i m. Map_set i [] m) [0 ..< maxDepth (options s) + 1]
                                  (depthQueues s)\<rparr>))"

text \<open>\<open>saveBatch(force)\<close>, with the file manager taken to succeed.\<close>

definition saveBatch :: "bool \<Rightarrow> RelationshipsScraper \<Rightarrow> RelationshipsScraper" where
  "saveBatch force s =
     (if length (currentBatch s) = 0 then s
      else if \<not> force \<and> length (currentBatch s) < saveInterval (options s) then s
      else
        s\<lparr>savedBatches := savedBatches s @ [currentBatch s],
          sc_stats := (sc_stats s)\<lparr>relationshipsSaved :=
                         relationshipsSaved (sc_stats s) + length (currentBatch s)\<rparr>,
          currentBatch := []\<rparr>)"

text \<open>
  One round of the loop of \<open>processRelationships\<close> over the valid relationships. The
  state of the loop: \<open>newRelationships\<close>, \<open>nextDepthUsers\<close> and the scraper. An error
  thrown by the deduplicator is caught in the loop and counted; \<open>t\<close> is the time.
\<close>

definition process_relationship ::
  "hashing \<Rightarrow> user \<Rightarrow> relationshipType \<Rightarrow> nat \<Rightarrow> nat \<Rightarrow> valid_user
     \<Rightarrow> relationshipRecord list \<times> user list \<times> RelationshipsScraper
     \<Rightarrow> relationshipRecord list \<times> user list \<times> RelationshipsScraper" where
  "process_relationship H sourceUser relationshipType currentDepth t targetUser acc =
     (case acc of (newRelationships, nextDepthUsers, s) \<Rightarrow>
        if v_did targetUser = [] then acc
        else
          (let relationshipRecord =
                 \<lparr>source_did = did sourceUser, source_handle = handle sourceUser,
                  target_did = v_did targetUser, target_handle = v_handle targetUser,
                  rel_type = relationshipType, rel_depth = currentDepth\<rparr>
           in case isFollowDuplicate H (did sourceUser) (v_did targetUser) t (deduplicator s) of
                (Inl e, d1) \<Rightarrow>
                  (newRelationships, nextDepthUsers,
                   s\<lparr>deduplicator := d1,
                     sc_stats := (sc_stats s)\<lparr>errors := errors (sc_stats s) + 1\<rparr>\<rparr>)
              | (Inr True, d1) \<Rightarrow>
                  (newRelationships, nextDepthUsers,
                   s\<lparr>deduplicator := d1,
                     sc_stats := (sc_stats s)\<lparr>duplicatesSkipped :=
                                    duplicatesSkipped (sc_stats s) + 1\<rparr>\<rparr>)
              | (Inr False, d1) \<Rightarrow>
                  (case markFollowProcessed H (did sourceUser) (v_did targetUser) t d1 of
                     (Inl e, d2) \<Rightarrow>
                       (newRelationships @ [relationshipRecord], nextDepthUsers,
                        s\<lparr>deduplicator := d2,
                          sc_stats := (sc_stats s)\<lparr>errors := errors (sc_stats s) + 1\<rparr>\<rparr>)
                   | (Inr u, d2) \<Rightarrow>
                       (newRelationships @ [relationshipRecord],
                        (if currentDepth < maxDepth (options s)
                            \<and> v_did targetUser \<notin> set (processedUsers s)
                            \<and> v_followersCount targetUser \<ge> minFollowerCount (options s)
                         then nextDepthUsers @
                                [\<lparr>did = v_did targetUser, handle = v_handle targetUser,
                                  followersCount = v_followersCount targetUser,
                                  followsCount = v_followsCount targetUser,
                                  depth = currentDepth + 1\<rparr>]
                         else nextDepthUsers),
                        s\<lparr>deduplicator := d2\<rparr>))))"

text \<open>
  \<open>processRelationships(relationships, sourceUser, relationshipType, currentDepth)\<close>,
  in its four parts: the counting of what was discovered and of the validation errors;
  the loop; the block that appends the new relationships to the current batch; and the
  block that adds the users found to the next depth queue, followed by the saving of a
  full batch. The only error that leaves the function is the \<open>TypeError\<close> of pushing to a
  depth queue that does not exist.
\<close>

definition count_discovered :: "follow_item list \<Rightarrow> RelationshipsScraper \<Rightarrow> RelationshipsScraper" where
  "count_discovered relationships s =
     (let s1 = s\<lparr>sc_stats := (sc_stats s)\<lparr>relationshipsDiscovered :=
                     relationshipsDiscovered (sc_stats s) + length relationships\<rparr>\<rparr>;
          validation = validateBatch relationships
      in if snd validation > 0
         then s1\<lparr>sc_stats := (sc_stats s1)\<lparr>errors := errors (sc_stats s1) + snd validation\<rparr>\<rparr>
         else s1)"

definition add_to_batch ::
  "relationshipRecord list \<Rightarrow> RelationshipsScraper \<Rightarrow> RelationshipsScraper" where
  "add_to_batch newRelationships s =
     (if length newRelationships > 0
      then s\<lparr>currentBatch := currentBatch s @ newRelationships,
             sc_stats := (sc_stats s)\<lparr>relationshipsProcessed :=
                            relationshipsProcessed (sc_stats s) + length newRelationships\<rparr>\<rparr>
      else s)"

definition add_to_next_depth ::
  "nat \<Rightarrow> user list \<Rightarrow> RelationshipsScraper \<Rightarrow> (js_error + unit) \<times> RelationshipsScraper" where
  "add_to_next_depth currentDepth nextDepthUsers s =
     (if length nextDepthUsers > 0 \<and> currentDepth < maxDepth (options s) then
        (case map_of (depthQueues s) (currentDepth + 1) of
           None \<Rightarrow> (Inl (TypeError ''nextDepthQueue is undefined''), s)
         | Some nextDepthQueue \<Rightarrow>
             (let sorted = (if prioritizePopularUsers (options s)
                            then sort_key (\<lambda>u. - int (followersCount u)) nextDepthUsers
                            else nextDepthUsers);
                  s1 = s\<lparr>depthQueues :=
                             Map_set (currentDepth + 1) (nextDepthQueue @ sorted) (depthQueues s)\<rparr>
              in (Inr (), saveBatch False s1)))
      else (Inr (), saveBatch False s))"

definition processRelationships ::
  "hashing \<Rightarrow> user \<Rightarrow> relationshipType \<Rightarrow> nat \<Rightarrow> nat \<Rightarrow> follow_item list
     \<Rightarrow> RelationshipsScraper \<Rightarrow> (js_error + unit) \<times> RelationshipsScraper" where
  "processRelationships H sourceUser relationshipType currentDepth t relationships s =
     (if length relationships = 0 then (Inr (), s)
      else
        (let validRelationships = fst (validateBatch relationships);
             looped = fold (process_relationship H sourceUser relationshipType currentDepth t)
                        validRelationships ([], [], count_discovered relationships s);
             newRelationships = fst looped;
             nextDepthUsers = fst (snd looped)
         in add_to_next_depth currentDepth nextDepthUsers
              (add_to_batch newRelationships (snd (snd looped)))))"

text \<open>The edges emitted so far, and the record written for an edge.\<close>

definition emitted :: "RelationshipsScraper \<Rightarrow> relationshipRecord list" where
  "emitted s = concat (savedBatches s) @ currentBatch s"

definition edge :: "user \<Rightarrow> valid_user \<Rightarrow> relationshipType \<Rightarrow> nat \<Rightarrow> relationshipRecord" where
  "edge sourceUser targetUser relationshipType currentDepth =
     \<lparr>source_did = did sourceUser, source_handle = handle sourceUser,
      target_did = v_did targetUser, target_handle = v_handle targetUser,
      rel_type = relationshipType, rel_depth = currentDepth\<rparr>"

text \<open>
  The call \<open>this.checkpointManager.saveCheckpoint(type, state, metadata)\<close>. The class
  \<open>CheckpointManager\<close> defines \<open>createCheckpoint\<close>, \<open>loadLatestCheckpoint\<close>,
  \<open>loadCheckpoint\<close>, \<open>listCheckpoints\<close>, \<open>deleteCheckpoint\<close>, \<open>createBackup\<close>,
  \<open>cleanupOldCheckpoints\<close>, \<open>shouldCreateCheckpoint\<close>, \<open>getStats\<close>, \<open>exportCheckpoints\<close>,
  \<open>importCheckpoints\<close> and \<open>cleanup\<close>, and no method \<open>saveCheckpoint\<close>: the call raises
  a \<open>TypeError\<close>.
\<close>

definition checkpointManager_saveCheckpoint ::
  "string \<Rightarrow> frontier_data \<Rightarrow> frontier_data CheckpointManager
     \<Rightarrow> js_error + frontier_data CheckpointManager" where
  "checkpointManager_saveCheckpoint ty state m =
     Inl (TypeError ''this.checkpointManager.saveCheckpoint is not a function'')"

text \<open>\<open>saveCheckpoint(currentDepth)\<close> of the scraper: any error is caught and logged.\<close>

definition saveCheckpoint :: "nat \<Rightarrow> RelationshipsScraper \<Rightarrow> RelationshipsScraper" where
  "saveCheckpoint currentDepth s =
     (let state = \<lparr>fd_currentDepth = currentDepth, fd_processedUsers = processedUsers s,
                   fd_depthQueues = depthQueues s, fd_stats = sc_stats s\<rparr>
      in case checkpointManager_saveCheckpoint ''relationships_scraper'' state (checkpointManager s) of
           Inl e \<Rightarrow> s
         | Inr m \<Rightarrow> s\<lparr>checkpointManager := m\<rparr>)"

text \<open>
  \<open>checkpoint.data\<close>: a checkpoint as \<open>createCheckpoint\<close> writes it has the fields \<open>id\<close>,
  \<open>scraperType\<close>, \<open>sessionId\<close>, \<open>timestamp\<close>, \<open>counter\<close>, \<open>state\<close> and \<open>metadata\<close>; it has
  no field \<open>data\<close>, so the read gives \<open>undefined\<close>.
\<close>

definition checkpoint_data :: "frontier_data Checkpoint \<Rightarrow> frontier_data option" where
  "checkpoint_data c = None"

definition loadDepthQueues ::
  "(nat \<times> user list) list \<Rightarrow> RelationshipsScraper \<Rightarrow> RelationshipsScraper" where
  "loadDepthQueues depthQueuesData s =
     fold (\<lambda>(depthNum, users) s'.
             if depthNum \<le> maxDepth (options s')
             then s'\<lparr>depthQueues := Map_set depthNum users (depthQueues s')\<rparr>
             else s')
       depthQueuesData s"

text \<open>
  \<open>loadInitialUserQueue()\<close>; \<open>userFiles\<close> are the users of each saved user file.
\<close>

definition loadInitialUserQueue ::
  "user list list \<Rightarrow> RelationshipsScraper \<Rightarrow> js_error + RelationshipsScraper" where
  "loadInitialUserQueue userFiles s =
     (if length userFiles = 0 then Inl (Error ''No user files found. Run users scraper first.'')
      else
        (let seedUsers =
               map (\<lambda>u. u\<lparr>depth := 0\<rparr>)
                 (filter (\<lambda>u. did u \<noteq> [] \<and> followersCount u \<ge> minFollowerCount (options s))
                    (concat userFiles));
             sorted = (if prioritizePopularUsers (options s)
                       then sort_key (\<lambda>u. - int (followersCount u)) seedUsers
                       else seedUsers)
         in case map_of (depthQueues s) 0 of
              None \<Rightarrow> Inl (TypeError ''this.depthQueues.get(0) is undefined'')
            | Some queue \<Rightarrow>
                Inr (s\<lparr>depthQueues := Map_set 0 (queue @ take 1000 sorted) (depthQueues s)\<rparr>)))"

text \<open>
  The part of \<open>start(resumeOptions)\<close> before the crawl itself: the attempt to resume
  from a checkpoint, and the loading of the seed users when there is none.
\<close>

definition start_prepare ::
  "bool \<Rightarrow> user list list \<Rightarrow> RelationshipsScraper \<Rightarrow> js_error + RelationshipsScraper" where
  "start_prepare resume userFiles s =
     (let loaded = (if resume
                    then loadCheckpoint ''relationships_scraper'' (checkpointManager s)
                    else (None, checkpointManager s));
          s1 = s\<lparr>checkpointManager := snd loaded\<rparr>
      in case fst loaded of
           Some checkpoint \<Rightarrow>
             (case checkpoint_data checkpoint of
                None \<Rightarrow> Inl (TypeError ''Cannot read properties of undefined (reading stats)'')
              | Some data \<Rightarrow>
                  Inr (loadDepthQueues (fd_depthQueues data)
                         (s1\<lparr>sc_stats := fd_stats data,
                             processedUsers := fd_processedUsers data\<rparr>)))
         | None \<Rightarrow> loadInitialUserQueue userFiles s1)"

text \<open>
  Example data: a seed user, an item of its followers and follows listings with the
  validated subject, and scrapers on an empty store and an empty checkpoint directory:
  one as the assignments of the constructor and \<open>initialize()\<close> leave it, one in the
  middle of a crawl, and the first one after a start with \<open>resume\<close>. The constructor
  itself is not part of the model: as written, its \<open>new CheckpointManager()\<close> passes no
  scraper type, on which the manager's constructor raises in \<open>path.join\<close>; the states
  below are those of a scraper whose checkpoint manager exists.
\<close>

definition example_options :: scraper_options where
  "example_options =
     \<lparr>maxRelationships = 10000000, maxDepth = 3, saveInterval = 1000,
      prioritizePopularUsers = True, minFollowerCount = 10\<rparr>"

definition alice :: user where
  "alice = \<lparr>did = ''did:plc:alice'', handle = ''alice.bsky.social'',
            followersCount = 100, followsCount = 100, depth = 0\<rparr>"

definition bob :: user where
  "bob = \<lparr>did = ''did:plc:bob'', handle = ''bob.bsky.social'',
          followersCount = 50, followsCount = 50, depth = 1\<rparr>"

definition bob_item :: follow_item where
  "bob_item =
     \<lparr>subject = Some \<lparr>p_did = ''did:plc:bob'', p_handle = ''bob.bsky.social'',
                       p_followersCount = Some 50, p_followsCount = Some 50\<rparr>\<rparr>"

definition bob_valid :: valid_user where
  "bob_valid =
     \<lparr>v_did = ''did:plc:bob'', v_handle = ''bob.bsky.social'',
      v_followersCount = 50, v_followsCount = 50\<rparr>"

definition crawl_start :: RelationshipsScraper where
  "crawl_start =
     \<lparr>options = example_options, sc_stats = zero_scraper_stats, currentBatch = [],
      savedBatches = [], processedUsers = [],
      depthQueues = [(0, []), (1, []), (2, []), (3, [])],
      deduplicator = dedup_ready,
      checkpointManager = CheckpointManager_new ''unknown_scraper'' ''s'' []\<rparr>"

definition mid_crawl :: RelationshipsScraper where
  "mid_crawl =
     crawl_start\<lparr>processedUsers := [did alice],
                 depthQueues := [(0, []), (1, [bob]), (2, []), (3, [])]\<rparr>"

definition resumed_crawl :: RelationshipsScraper where
  "resumed_crawl = crawl_start\<lparr>depthQueues := [(0, [alice]), (1, []), (2, []), (3, [])]\<rparr>"

section \<open>Rate limiter: minimum spacing\<close>

text \<open>
  C9. For a rate \<open>requestsPerMinute > 0\<close> the spacing is built from the base value
  \<open>floor(60000 / requestsPerMinute)\<close>: without the jitter flag it is the base value
  floored at the configured minimum interval; with the flag a jitter of at least zero
  and at most 20 percent of the base value is added before flooring. The result is never
  below the configured minimum interval, and equals the base value (without jitter) or
  lies between it and 1.2 times it (with jitter) when the base value is not below the
  minimum interval.
\<close>

theorem calculateMinTime_spacing:
  assumes "0 < rpm" and "0 \<le> rnd" and "rnd < 1"
  shows "\<exists>jitter. 0 \<le> jitter
           \<and> jitter \<le> 0.2 * real_of_int \<lfloor>60000 / rpm\<rfloor>
           \<and> (\<not> RANDOMIZE_DELAYS S \<longrightarrow> jitter = 0)
           \<and> calculateMinTime S rnd rpm
               = max (real_of_int \<lfloor>60000 / rpm\<rfloor> + jitter) (real_of_int (MIN_REQUEST_INTERVAL S))
           \<and> real_of_int (MIN_REQUEST_INTERVAL S) \<le> calculateMinTime S rnd rpm
           \<and> (real_of_int (MIN_REQUEST_INTERVAL S) \<le> real_of_int \<lfloor>60000 / rpm\<rfloor>
                \<longrightarrow> calculateMinTime S rnd rpm = real_of_int \<lfloor>60000 / rpm\<rfloor> + jitter)"
proof -
  define b where "b = real_of_int \<lfloor>60000 / rpm\<rfloor>"
  have b0: "0 \<le> b"
    using assms(1) by (simp add: b_def)
  show ?thesis
  proof (cases "RANDOMIZE_DELAYS S")
    case True
    have j0: "0 \<le> rnd * 0.2 * b"
      using assms(2) b0 by simp
    have j1: "rnd * 0.2 * b \<le> 0.2 * b"
      using mult_right_mono [of rnd 1 b] assms(3) b0 by simp
    show ?thesis
      apply (rule exI [of _ "rnd * 0.2 * b"])
      using True j0 j1 by (simp add: calculateMinTime_def Let_def b_def [symmetric])
  next
    case False
    show ?thesis
      apply (rule exI [of _ 0])
      using False b0 by (simp add: calculateMinTime_def Let_def b_def [symmetric])
  qed
qed

theorem calculateMinTime_spacing_witness:
  "calculateMinTime \<lparr>RANDOMIZE_DELAYS = True, MIN_REQUEST_INTERVAL = 500\<rparr> (1/2) 60 = 1100
   \<and> (\<exists>jitter. 0 \<le> jitter \<and> jitter \<le> 0.2 * real_of_int \<lfloor>60000 / (60::real)\<rfloor>
        \<and> calculateMinTime \<lparr>RANDOMIZE_DELAYS = True, MIN_REQUEST_INTERVAL = 500\<rparr> (1/2) 60
            = real_of_int \<lfloor>60000 / (60::real)\<rfloor> + jitter)"
proof -
  have v: "calculateMinTime \<lparr>RANDOMIZE_DELAYS = True, MIN_REQUEST_INTERVAL = 500\<rparr> (1/2) 60 = 1100"
    by (simp add: calculateMinTime_def Let_def)
  have "(0::real) < 60" and "(0::real) \<le> 1/2" and "(1/2::real) < 1"
    by simp_all
  from calculateMinTime_spacing [OF this, of "\<lparr>RANDOMIZE_DELAYS = True, MIN_REQUEST_INTERVAL = 500\<rparr>"]
  obtain jitter where
    "0 \<le> jitter" "jitter \<le> 0.2 * real_of_int \<lfloor>60000 / (60::real)\<rfloor>"
    "real_of_int (MIN_REQUEST_INTERVAL \<lparr>RANDOMIZE_DELAYS = True, MIN_REQUEST_INTERVAL = 500\<rparr>)
       \<le> real_of_int \<lfloor>60000 / (60::real)\<rfloor>
     \<longrightarrow> calculateMinTime \<lparr>RANDOMIZE_DELAYS = True, MIN_REQUEST_INTERVAL = 500\<rparr> (1/2) 60
          = real_of_int \<lfloor>60000 / (60::real)\<rfloor> + jitter"
    by blast
  then show ?thesis using v by auto
qed

section \<open>Proxy manager: the status sets\<close>

lemma set_sAdd [simp]: "set (sAdd s ms) = set s \<union> set ms"
  by (auto simp: sAdd_def)

lemma set_sRem [simp]: "set (sRem s ms) = set s - set ms"
  by (auto simp: sRem_def)

lemma updateProxyStats_sets [simp]:
  "PROXIES (updateProxyStats p a ad s) = PROXIES s"
  "HEALTHY_PROXIES (updateProxyStats p a ad s) = HEALTHY_PROXIES s"
  "UNHEALTHY_PROXIES (updateProxyStats p a ad s) = UNHEALTHY_PROXIES s"
  "RATE_LIMITED (updateProxyStats p a ad s) = RATE_LIMITED s"
  "redisClient (updateProxyStats p a ad s) = redisClient s"
  by (simp_all add: updateProxyStats_def Let_def)

lemma inv_success: "status_inv s \<Longrightarrow> status_inv (markProxySuccess p s)"
  by (auto simp: status_inv_def markProxySuccess_def)

lemma inv_failure: "status_inv s \<Longrightarrow> status_inv (markProxyFailure thr p s)"
  by (auto simp: status_inv_def markProxyFailure_def Let_def)

lemma inv_rate_limited: "status_inv s \<Longrightarrow> status_inv (markProxyRateLimited p d s)"
  by (auto simp: status_inv_def markProxyRateLimited_def)

lemma inv_expired: "status_inv s \<Longrightarrow> status_inv (rateLimitExpired p s)"
  by (auto simp: status_inv_def rateLimitExpired_def Let_def sIsMember_def)

lemma inv_remove: "status_inv s \<Longrightarrow> status_inv (removeProxies ps s)"
  by (auto simp: status_inv_def removeProxies_def)

lemma inv_fold_expired:
  "status_inv s \<Longrightarrow> status_inv (fold (\<lambda>tm. rateLimitExpired (snd tm)) tms s)"
  by (induction tms arbitrary: s) (simp_all add: inv_expired)

lemma inv_elapse: "status_inv s \<Longrightarrow> status_inv (elapse d s)"
proof -
  assume a: "status_inv s"
  have "status_inv (s\<lparr>clock := c, pendingTimers := r\<rparr>)" for c r
    using a by (simp add: status_inv_def)
  then show ?thesis
    by (simp add: elapse_def Let_def inv_fold_expired)
qed

lemma inv_step:
  "status_inv s \<Longrightarrow> \<not> is_registration ev \<Longrightarrow> status_inv (pm_step thr s ev)"
  by (cases ev) (simp_all add: inv_success inv_failure inv_rate_limited inv_elapse inv_remove)

lemma inv_run:
  "status_inv s \<Longrightarrow> \<forall>ev \<in> set evs. \<not> is_registration ev \<Longrightarrow> status_inv (pm_run thr s evs)"
  unfolding pm_run_def
  by (induction evs arbitrary: s) (simp_all add: inv_step)

text \<open>Without a failure threshold nothing ever enters the unhealthy set.\<close>

lemma unhealthy_expired:
  "set (UNHEALTHY_PROXIES (rateLimitExpired p s)) \<subseteq> set (UNHEALTHY_PROXIES s)"
  by (auto simp: rateLimitExpired_def Let_def)

lemma unhealthy_fold_expired:
  "set (UNHEALTHY_PROXIES (fold (\<lambda>tm. rateLimitExpired (snd tm)) tms s))
     \<subseteq> set (UNHEALTHY_PROXIES s)"
proof (induction tms arbitrary: s)
  case Nil
  then show ?case by simp
next
  case (Cons tm tms)
  have "set (UNHEALTHY_PROXIES (fold (\<lambda>tm. rateLimitExpired (snd tm)) tms (rateLimitExpired (snd tm) s)))
          \<subseteq> set (UNHEALTHY_PROXIES (rateLimitExpired (snd tm) s))"
    by (rule Cons.IH)
  also have "\<dots> \<subseteq> set (UNHEALTHY_PROXIES s)"
    by (rule unhealthy_expired)
  finally show ?case by simp
qed

lemma unhealthy_elapse: "set (UNHEALTHY_PROXIES (elapse d s)) \<subseteq> set (UNHEALTHY_PROXIES s)"
  using unhealthy_fold_expired
    [of _ "s\<lparr>clock := clock s + d,
              pendingTimers := filter (\<lambda>tm. \<not> fst tm \<le> clock s + d) (pendingTimers s)\<rparr>"]
  by (simp add: elapse_def Let_def)

lemma unhealthy_step:
  "set (UNHEALTHY_PROXIES (pm_step None s ev)) \<subseteq> set (UNHEALTHY_PROXIES s)"
proof (cases ev)
  case (Elapse d)
  then show ?thesis by (simp add: unhealthy_elapse)
qed (auto simp: addProxies_def removeProxies_def markProxySuccess_def markProxyFailure_def
       markProxyRateLimited_def reached_threshold_def Let_def)

lemma unhealthy_run:
  "set (UNHEALTHY_PROXIES (pm_run None s evs)) \<subseteq> set (UNHEALTHY_PROXIES s)"
  unfolding pm_run_def
proof (induction evs arbitrary: s)
  case Nil
  then show ?case by simp
next
  case (Cons e evs)
  show ?case
    using Cons.IH [of "pm_step None s e"] unhealthy_step [of s e] by auto
qed

text \<open>
  C5, as amended. Start from a pool in which every registered proxy is in at least one
  status set and no healthy proxy is also unhealthy or rate-limited. Then after any
  sequence of \<open>markProxySuccess\<close>, \<open>markProxyFailure\<close>, \<open>markProxyRateLimited\<close>,
  \<open>removeProxies\<close> and cooldown expiries the same holds: every registered proxy is in at
  least one status set, and a proxy in the healthy set is in no other. The unhealthy and
  the rate-limited set are not kept apart. With the settings as they are (no failure
  threshold) nothing enters the unhealthy set, so if it starts empty every registered
  proxy is in exactly one of healthy and rate-limited.
\<close>

theorem status_sets_preserved:
  assumes "status_inv s" and "\<forall>ev \<in> set evs. \<not> is_registration ev"
  shows "status_inv (pm_run thr s evs)
         \<and> (thr = None \<and> UNHEALTHY_PROXIES s = [] \<longrightarrow> UNHEALTHY_PROXIES (pm_run thr s evs) = [])"
proof
  show "status_inv (pm_run thr s evs)"
    using assms by (rule inv_run)
  show "thr = None \<and> UNHEALTHY_PROXIES s = [] \<longrightarrow> UNHEALTHY_PROXIES (pm_run thr s evs) = []"
    using unhealthy_run [of s evs] by auto
qed

theorem status_sets_preserved_witness:
  "status_inv (pm_run None (addProxies [''http://10.0.0.1:8080''] pm_connected)
                 [MarkRateLimited ''http://10.0.0.1:8080'' 60000,
                  MarkFailure ''http://10.0.0.1:8080'', Elapse 60000])
   \<and> UNHEALTHY_PROXIES (pm_run None (addProxies [''http://10.0.0.1:8080''] pm_connected)
                 [MarkRateLimited ''http://10.0.0.1:8080'' 60000,
                  MarkFailure ''http://10.0.0.1:8080'', Elapse 60000]) = []"
proof -
  have a: "status_inv (addProxies [''http://10.0.0.1:8080''] pm_connected)"
    by (simp add: status_inv_def addProxies_def pm_connected_def)
  have b: "\<forall>ev \<in> set [MarkRateLimited ''http://10.0.0.1:8080'' 60000,
                        MarkFailure ''http://10.0.0.1:8080'', Elapse 60000]. \<not> is_registration ev"
    by simp
  have c: "UNHEALTHY_PROXIES (addProxies [''http://10.0.0.1:8080''] pm_connected) = []"
    by (simp add: addProxies_def pm_connected_def)
  show ?thesis
    using status_sets_preserved [OF a b, of None] c by simp
qed

text \<open>
  C5 as stated fails. With a failure threshold of 3, a registered proxy that is reported
  rate-limited and then fails three times is in the unhealthy and in the rate-limited set.
  With the settings as they are, a rate-limited proxy that is registered again is in the
  healthy and in the rate-limited set.
\<close>

theorem two_status_sets_counterexample:
  "example_proxy \<in> set (PROXIES run_limited_then_failed)
   \<and> example_proxy \<in> set (UNHEALTHY_PROXIES run_limited_then_failed)
   \<and> example_proxy \<in> set (RATE_LIMITED run_limited_then_failed)
   \<and> example_proxy \<in> set (PROXIES run_limited_then_registered)
   \<and> example_proxy \<in> set (HEALTHY_PROXIES run_limited_then_registered)
   \<and> example_proxy \<in> set (RATE_LIMITED run_limited_then_registered)"
  by (simp add: run_limited_then_failed_def run_limited_then_registered_def example_proxy_def
      pm_run_def pm_connected_def addProxies_def markProxyRateLimited_def
      markProxyFailure_def updateProxyStats_def reached_threshold_def no_stats_def
      sAdd_def sRem_def Let_def)

section \<open>Proxy manager: removal and cooldown expiry\<close>

text \<open>
  C4 at a concrete run. A proxy is registered, reported rate-limited with a cooldown of
  60000 ms, removed with \<open>removeProxies\<close>, and then the cooldown runs out. The timer
  callback puts the proxy back into the healthy set although it is no longer registered,
  and \<open>getRandomProxy\<close> returns it.
\<close>

theorem removed_proxy_readmitted:
  "example_proxy \<notin> set (PROXIES run_removed_during_cooldown)
   \<and> HEALTHY_PROXIES run_removed_during_cooldown = [example_proxy]
   \<and> fst (getRandomProxy 0 run_removed_during_cooldown) = Some example_proxy"
  by (simp add: run_removed_during_cooldown_def example_proxy_def
      pm_run_def pm_connected_def addProxies_def markProxyRateLimited_def
      removeProxies_def elapse_def rateLimitExpired_def sAdd_def sRem_def sIsMember_def
      getRandomProxy_def Let_def)

section \<open>Proxy manager without a store connection\<close>

text \<open>
  C10. With no Redis client (\<open>redisClient\<close> is \<open>null\<close>), \<open>getRandomProxy\<close> returns
  \<open>null\<close>, and \<open>markProxySuccess\<close>, \<open>markProxyFailure\<close> and \<open>markProxyRateLimited\<close>
  return normally; none of them changes the manager or the stored proxy state, whatever
  the arguments.
\<close>

theorem no_client_no_effect:
  assumes "\<not> redisClient s"
  shows "getRandomProxy rnd s = (None, s)
         \<and> markProxySuccess p s = s
         \<and> markProxyFailure thr p s = s
         \<and> markProxyRateLimited p d s = s"
  using assms
  by (simp add: getRandomProxy_def markProxySuccess_def markProxyFailure_def
      markProxyRateLimited_def)

theorem no_client_no_effect_witness:
  "\<not> redisClient ProxyManager_new
   \<and> getRandomProxy (1/2) ProxyManager_new = (None, ProxyManager_new)
   \<and> markProxySuccess ''http://10.0.0.1:8080'' ProxyManager_new = ProxyManager_new
   \<and> markProxyFailure (Some 3) ''http://10.0.0.1:8080'' ProxyManager_new = ProxyManager_new
   \<and> markProxyRateLimited ''http://10.0.0.1:8080'' 60000 ProxyManager_new = ProxyManager_new"
proof -
  have a: "\<not> redisClient ProxyManager_new"
    by (simp add: ProxyManager_new_def)
  show ?thesis
    using no_client_no_effect [OF a, of "1/2" "''http://10.0.0.1:8080''" "Some 3" 60000] a
    by simp
qed

section \<open>Deduplicator: marking and checking\<close>

lemma markProcessed_holds:
  assumes "isInitialized d" and "redisUp d"
  shows "holds H ns x (t + 86400 * 7) (snd (markProcessed H ns x t d))"
  using assms by (simp add: holds_def markProcessed_def Let_def BloomFilter_add_def)

lemma holds_step:
  assumes "holds H ns x e d" and "\<not> touches H ns x ev"
  shows "holds H ns x e (dedup_step H d ev)"
proof (cases ev)
  case (Mark ns' y t)
  then show ?thesis
    using assms by (auto simp: holds_def markProcessed_def Let_def BloomFilter_add_def)
next
  case (Check ns' y t)
  then show ?thesis
    using assms(1) by (auto simp: holds_def isDuplicate_def Let_def)
next
  case (Clear ty)
  then show ?thesis
    using assms(2) by simp
qed

lemma holds_run:
  "holds H ns x e d \<Longrightarrow> \<forall>ev \<in> set evs. \<not> touches H ns x ev
     \<Longrightarrow> holds H ns x e (dedup_run H d evs)"
  unfolding dedup_run_def
  by (induction evs arbitrary: d) (simp_all add: holds_step)

lemma holds_isDuplicate:
  "holds H ns x e d \<Longrightarrow> fst (isDuplicate H ns x t d) = Inr (t \<le> e)"
  by (simp add: holds_def isDuplicate_def Let_def BloomFilter_has_def redis_exists_def)

text \<open>
  C3. Take an initialized deduplicator with a reachable store, any entity type \<open>ns\<close> and
  any identifier \<open>x\<close>. After \<open>markProcessed\<close> of \<open>x\<close> at time \<open>t0\<close>, and any later calls
  that neither mark an identifier with the same record key again nor clear, the duplicate
  check for \<open>x\<close> returns true at every time before \<open>t0\<close> plus the time to live of
  \<open>86400 * 7\<close> seconds, and false at every time after it.
\<close>

theorem duplicate_until_ttl:
  assumes "isInitialized d" and "redisUp d"
    and "\<forall>ev \<in> set evs. \<not> touches H ns x ev"
  shows "(t < t0 + 86400 * 7 \<longrightarrow>
            fst (isDuplicate H ns x t (dedup_run H (snd (markProcessed H ns x t0 d)) evs)) = Inr True)
       \<and> (t > t0 + 86400 * 7 \<longrightarrow>
            fst (isDuplicate H ns x t (dedup_run H (snd (markProcessed H ns x t0 d)) evs)) = Inr False)"
proof -
  have "holds H ns x (t0 + 86400 * 7) (snd (markProcessed H ns x t0 d))"
    using assms(1,2) by (rule markProcessed_holds)
  then have "holds H ns x (t0 + 86400 * 7) (dedup_run H (snd (markProcessed H ns x t0 d)) evs)"
    using assms(3) by (rule holds_run)
  then show ?thesis
    by (simp add: holds_isDuplicate)
qed

theorem duplicate_until_ttl_witness:
  "fst (isDuplicate example_hashing Users ''did:plc:alice'' 604799
         (dedup_run example_hashing
            (snd (markProcessed example_hashing Users ''did:plc:alice'' 0 dedup_ready))
            [Mark Users ''did:plc:bob'' 5, Check Users ''did:plc:alice'' 6])) = Inr True
   \<and> fst (isDuplicate example_hashing Users ''did:plc:alice'' 604801
         (dedup_run example_hashing
            (snd (markProcessed example_hashing Users ''did:plc:alice'' 0 dedup_ready))
            [Mark Users ''did:plc:bob'' 5, Check Users ''did:plc:alice'' 6])) = Inr False"
proof -
  have a: "isInitialized dedup_ready" and b: "redisUp dedup_ready"
    by (simp_all add: dedup_ready_def)
  have c: "\<forall>ev \<in> set [Mark Users ''did:plc:bob'' 5, Check Users ''did:plc:alice'' 6].
             \<not> touches example_hashing Users ''did:plc:alice'' ev"
    by (simp add: example_hashing_def)
  show ?thesis
    using duplicate_until_ttl [OF a b c, of 604799 0]
          duplicate_until_ttl [OF a b c, of 604801 0]
    by simp
qed

section \<open>Deduplicator: the filters cover the store\<close>


text \<open>
  \<open>clear(type)\<close> on an initialized deduplicator ends in the \<open>TypeError\<close> of its first
  statement, and in every case leaves the deduplicator and the store as they were.
\<close>

lemma clear_raises:
  "isInitialized d \<Longrightarrow>
     clear ty d = (Inl (TypeError ''this.bloomFilters[t].clear is not a function''), d)"
  by (cases ty) (simp_all add: clear_def clear_one_def BloomFilter_clear_def)










section \<open>Checkpoint manager: the latest checkpoint\<close>

lemma hd_sort_key_least:
  assumes "xs \<noteq> []"
  shows "hd (sort_key f xs) \<in> set xs \<and> (\<forall>x \<in> set xs. f (hd (sort_key f xs)) \<le> f x)"
proof -
  define ys where "ys = sort_key f xs"
  have ne: "ys \<noteq> []"
    using assms by (auto simp: ys_def dest: arg_cong [where f = length])
  have s: "sorted (map f ys)" and st: "set ys = set xs"
    by (simp_all add: ys_def)
  obtain y rest where yr: "ys = y # rest"
    using ne by (cases ys) auto
  have "\<forall>x \<in> set ys. f y \<le> f x"
    using s yr by auto
  then show ?thesis
    using yr st by (auto simp: ys_def [symmetric])
qed

text \<open>
  C7, as amended. \<open>loadLatestCheckpoint\<close> returns a stored checkpoint of the manager's
  scraper type whose time stamp is the latest among them, provided its age is at most the
  maximum age. It returns nothing when there is no stored checkpoint of that type, or
  when the one with the latest time stamp is older than the maximum age. (The sequence
  number plays no part.)
\<close>

theorem loadLatest_most_recent:
  "(case fst (loadLatestCheckpoint S now m) of
      Some c \<Rightarrow> c \<in> set (listCheckpoints m)
               \<and> (\<forall>c' \<in> set (listCheckpoints m). cp_timestamp c' \<le> cp_timestamp c)
               \<and> now - cp_timestamp c \<le> maxCheckpointAge S
    | None \<Rightarrow> listCheckpoints m = []
             \<or> (\<exists>c \<in> set (listCheckpoints m).
                   (\<forall>c' \<in> set (listCheckpoints m). cp_timestamp c' \<le> cp_timestamp c)
                   \<and> now - cp_timestamp c > maxCheckpointAge S))"
proof (cases "listCheckpoints m = []")
  case True
  then show ?thesis
    by (simp add: loadLatestCheckpoint_def)
next
  case False
  define c where "c = hd (sort_key (\<lambda>c. - cp_timestamp c) (listCheckpoints m))"
  from hd_sort_key_least [OF False, of "\<lambda>c. - cp_timestamp c"]
  have c: "c \<in> set (listCheckpoints m)"
    "\<forall>c' \<in> set (listCheckpoints m). cp_timestamp c' \<le> cp_timestamp c"
    by (auto simp: c_def)
  show ?thesis
  proof (cases "now - cp_timestamp c > maxCheckpointAge S")
    case True
    then have "fst (loadLatestCheckpoint S now m) = None"
      using False by (simp add: loadLatestCheckpoint_def Let_def c_def)
    then show ?thesis
      using c True by auto
  next
    case old: False
    then have "fst (loadLatestCheckpoint S now m) = Some c"
      using False by (simp add: loadLatestCheckpoint_def Let_def c_def)
    then show ?thesis
      using c old by auto
  qed
qed

lemma listCheckpoints_two_sessions:
  "listCheckpoints two_sessions = [earlier_checkpoint, later_checkpoint]"
  by (simp add: listCheckpoints_def two_sessions_def CheckpointManager_new_def startsWith_def
      endsWith_def List.map_filter_def)

lemma loadLatest_two_sessions:
  "fst (loadLatestCheckpoint example_settings 4000 two_sessions) = Some later_checkpoint"
  by (simp add: listCheckpoints_two_sessions loadLatestCheckpoint_def Let_def
      earlier_checkpoint_def later_checkpoint_def example_settings_def maxCheckpointAge_def)

theorem loadLatest_most_recent_witness:
  "fst (loadLatestCheckpoint example_settings 4000 two_sessions) = Some later_checkpoint
   \<and> later_checkpoint \<in> set (listCheckpoints two_sessions)
   \<and> cp_timestamp earlier_checkpoint \<le> cp_timestamp later_checkpoint
   \<and> 4000 - cp_timestamp later_checkpoint \<le> maxCheckpointAge example_settings"
  using loadLatest_most_recent [where S = example_settings and now = 4000 and m = two_sessions]
  by (simp add: loadLatest_two_sessions listCheckpoints_two_sessions)

text \<open>
  C7 as stated fails: in the directory left by two sessions, \<open>loadLatestCheckpoint\<close>
  returns the checkpoint with sequence number 1 (the most recent one), although a
  checkpoint of the same scraper type with sequence number 2 is stored.
\<close>

theorem loadLatest_not_highest_sequence:
  "fst (loadLatestCheckpoint example_settings 4000 two_sessions) = Some later_checkpoint
   \<and> earlier_checkpoint \<in> set (listCheckpoints two_sessions)
   \<and> cp_scraperType earlier_checkpoint = cp_scraperType later_checkpoint
   \<and> cp_counter later_checkpoint < cp_counter earlier_checkpoint"
  by (simp add: loadLatest_two_sessions listCheckpoints_two_sessions
      earlier_checkpoint_def later_checkpoint_def)

text \<open>
  How the sequence numbers of the example arise: the first checkpoint a new manager
  creates has sequence number 1, whatever the directory already holds.
\<close>

lemma deleteCheckpoint_current:
  "currentCheckpoint (snd (deleteCheckpoint i m)) = currentCheckpoint m"
  by (simp add: deleteCheckpoint_def Let_def)

lemma fold_delete_current:
  "currentCheckpoint (fold (\<lambda>c m'. snd (deleteCheckpoint (cp_id c) m')) cs m) = currentCheckpoint m"
  by (induction cs arbitrary: m) (simp_all add: deleteCheckpoint_current)

lemma cleanup_current:
  "currentCheckpoint (cleanupOldCheckpoints S m) = currentCheckpoint m"
  by (simp add: cleanupOldCheckpoints_def Let_def fold_delete_current)

lemma createBackup_current:
  "currentCheckpoint (createBackup path m) = currentCheckpoint m"
  by (simp add: createBackup_def split: option.splits)

lemma new_manager_first_counter:
  assumes "AUTO_CHECKPOINT S"
  shows "map_option cp_counter
           (currentCheckpoint (snd (createCheckpoint S fmt st now (CheckpointManager_new ty sess dir))))
         = Some 1"
  using assms
  by (simp add: createCheckpoint_def Let_def cleanup_current createBackup_current
      CheckpointManager_new_def)

section \<open>Relationships scraper: the edge loop\<close>

lemma validateBatch_bob: "validateBatch [bob_item] = ([bob_valid], 0)"
  by code_simp

lemma valid_has_did:
  assumes "validateBatch [item] = ([tgt], n)"
  shows "v_did tgt \<noteq> []"
proof -
  from assms obtain u where u: "subject item = Some u" "validateUser u = Inr tgt"
    by (auto simp: validateBatch_def validateFollow_def Let_def split: option.splits sum.splits)
  then show ?thesis
    by (auto simp: validateUser_def split: if_splits)
qed

lemma isDuplicate_fresh:
  assumes "isInitialized d" and "redisUp d" and "redis d (record_prefix ns @ sha256 H x) = None"
  shows "fst (isDuplicate H ns x t d) = Inr False"
  using assms by (simp add: isDuplicate_def Let_def redis_exists_def)

lemma isDuplicate_state:
  "isInitialized (snd (isDuplicate H ns x t d)) = isInitialized d"
  "redisUp (snd (isDuplicate H ns x t d)) = redisUp d"
  "redis (snd (isDuplicate H ns x t d)) = redis d"
  "bloomFilters (snd (isDuplicate H ns x t d)) = bloomFilters d"
  by (simp_all add: isDuplicate_def Let_def)

lemma holds_after_check:
  "holds H ns x e d \<Longrightarrow> holds H ns x e (snd (isDuplicate H ns' y t d))"
  by (simp add: holds_def isDuplicate_state)

text \<open>An edge whose key has no record is emitted and marked.\<close>

lemma process_new:
  assumes "isInitialized (deduplicator s)" and "redisUp (deduplicator s)"
    and "redis (deduplicator s) (record_prefix Follows @ sha256 H (did src @ '':'' @ v_did tgt)) = None"
    and "v_did tgt \<noteq> []"
  shows "\<exists>next' s'. process_relationship H src ty dep t tgt (new, next, s)
           = (new @ [edge src tgt ty dep], next', s')
         \<and> holds H Follows (did src @ '':'' @ v_did tgt) (t + 86400 * 7) (deduplicator s')
         \<and> currentBatch s' = currentBatch s \<and> savedBatches s' = savedBatches s
         \<and> sc_stats s' = sc_stats s"
proof -
  define d1 where "d1 = snd (isFollowDuplicate H (did src) (v_did tgt) t (deduplicator s))"
  have f: "fst (isFollowDuplicate H (did src) (v_did tgt) t (deduplicator s)) = Inr False"
    using assms(1,2,3) by (simp add: isFollowDuplicate_def Let_def isDuplicate_fresh)
  have i1: "isInitialized d1" "redisUp d1"
    using assms(1,2) by (simp_all add: d1_def isFollowDuplicate_def Let_def isDuplicate_state)
  define d2 where "d2 = snd (markFollowProcessed H (did src) (v_did tgt) t d1)"
  have m: "markFollowProcessed H (did src) (v_did tgt) t d1 = (Inr (), d2)"
    using i1 by (simp add: d2_def markFollowProcessed_def markProcessed_def Let_def)
  have h: "holds H Follows (did src @ '':'' @ v_did tgt) (t + 86400 * 7) d2"
    using markProcessed_holds [OF i1] by (simp add: d2_def markFollowProcessed_def Let_def)
  have e: "isFollowDuplicate H (did src) (v_did tgt) t (deduplicator s) = (Inr False, d1)"
    using f by (simp add: d1_def prod_eq_iff)
  show ?thesis
    using assms(4) h by (simp add: process_relationship_def Let_def e m edge_def)
qed

text \<open>An edge whose key has a live record is skipped as a duplicate.\<close>

lemma process_dup:
  assumes "holds H Follows (did src @ '':'' @ v_did tgt) e (deduplicator s)" and "t \<le> e"
    and "v_did tgt \<noteq> []"
  shows "\<exists>s'. process_relationship H src ty dep t tgt (new, next, s) = (new, next, s')
         \<and> currentBatch s' = currentBatch s \<and> savedBatches s' = savedBatches s
         \<and> duplicatesSkipped (sc_stats s') = duplicatesSkipped (sc_stats s) + 1"
proof -
  define d1 where "d1 = snd (isFollowDuplicate H (did src) (v_did tgt) t (deduplicator s))"
  have f: "fst (isFollowDuplicate H (did src) (v_did tgt) t (deduplicator s)) = Inr True"
    using holds_isDuplicate [OF assms(1), of t] assms(2)
    by (simp add: isFollowDuplicate_def Let_def)
  have e: "isFollowDuplicate H (did src) (v_did tgt) t (deduplicator s) = (Inr True, d1)"
    using f by (simp add: d1_def prod_eq_iff)
  show ?thesis
    using assms(3) by (simp add: process_relationship_def Let_def e)
qed

lemma saveBatch_keeps:
  "emitted (saveBatch f s) = emitted s"
  "deduplicator (saveBatch f s) = deduplicator s"
  "duplicatesSkipped (sc_stats (saveBatch f s)) = duplicatesSkipped (sc_stats s)"
  by (simp_all add: saveBatch_def emitted_def)

lemma add_to_batch_keeps:
  "emitted (add_to_batch new s) = emitted s @ new"
  "deduplicator (add_to_batch new s) = deduplicator s"
  "duplicatesSkipped (sc_stats (add_to_batch new s)) = duplicatesSkipped (sc_stats s)"
  by (simp_all add: add_to_batch_def emitted_def)

lemma add_to_next_depth_keeps:
  "emitted (snd (add_to_next_depth dep nxt s)) = emitted s"
  "deduplicator (snd (add_to_next_depth dep nxt s)) = deduplicator s"
  "duplicatesSkipped (sc_stats (snd (add_to_next_depth dep nxt s))) = duplicatesSkipped (sc_stats s)"
  by (simp_all add: add_to_next_depth_def Let_def saveBatch_keeps
      emitted_def [of "_\<lparr>depthQueues := _\<rparr>"] emitted_def [of s] split: option.splits)

lemma count_discovered_keeps:
  "deduplicator (count_discovered items s) = deduplicator s"
  "duplicatesSkipped (sc_stats (count_discovered items s)) = duplicatesSkipped (sc_stats s)"
  "currentBatch (count_discovered items s) = currentBatch s"
  "savedBatches (count_discovered items s) = savedBatches s"
  by (simp_all add: count_discovered_def Let_def)

lemma process_single:
  assumes "validateBatch [item] = ([tgt], n)"
    and "process_relationship H src ty dep t tgt ([], [], count_discovered [item] s) = (new, nxt, s3)"
  shows "emitted (snd (processRelationships H src ty dep t [item] s)) = emitted s3 @ new
         \<and> deduplicator (snd (processRelationships H src ty dep t [item] s)) = deduplicator s3
         \<and> duplicatesSkipped (sc_stats (snd (processRelationships H src ty dep t [item] s)))
             = duplicatesSkipped (sc_stats s3)"
  using assms
  by (simp add: processRelationships_def Let_def add_to_next_depth_keeps add_to_batch_keeps)

text \<open>
  C1 at a user who both follows and is followed by the same account. On an initialized
  scraper with a reachable store that has no record for the pair, the listing item of
  the account is processed once in one direction (say \<open>'follower'\<close>) and, within the
  time to live, once more in a direction \<open>ty'\<close> (say \<open>'following'\<close>). Both calls consult
  the deduplicator with the same arguments \<open>(sourceUser.did, targetUser.did)\<close>, so the
  second edge is counted as a duplicate and is not emitted: the output gains the first
  edge only. The key does not tell the two directions apart.
\<close>

theorem second_direction_dropped:
  assumes "isInitialized (deduplicator s)" and "redisUp (deduplicator s)"
    and "redis (deduplicator s)
           (record_prefix Follows @ sha256 H (did src @ '':'' @ v_did tgt)) = None"
    and "validateBatch [item] = ([tgt], 0)"
    and "t' \<le> t + 86400 * 7"
  shows "emitted (snd (processRelationships H src ty' dep t' [item]
                   (snd (processRelationships H src ty dep t [item] s))))
           = emitted s @ [edge src tgt ty dep]
         \<and> duplicatesSkipped (sc_stats (snd (processRelationships H src ty' dep t' [item]
                   (snd (processRelationships H src ty dep t [item] s)))))
           = duplicatesSkipped (sc_stats s) + 1"
proof -
  have nd: "v_did tgt \<noteq> []"
    using assms(4) by (rule valid_has_did)
  define c where "c = count_discovered [item] s"
  have c: "isInitialized (deduplicator c)" "redisUp (deduplicator c)"
    "redis (deduplicator c) (record_prefix Follows @ sha256 H (did src @ '':'' @ v_did tgt)) = None"
    using assms(1,2,3) by (simp_all add: c_def count_discovered_keeps)
  from process_new [OF c nd, of ty dep t "[]" "[]"]
  obtain nxt s3 where p1:
    "process_relationship H src ty dep t tgt ([], [], c) = ([edge src tgt ty dep], nxt, s3)"
    "holds H Follows (did src @ '':'' @ v_did tgt) (t + 86400 * 7) (deduplicator s3)"
    "currentBatch s3 = currentBatch c" "savedBatches s3 = savedBatches c"
    "sc_stats s3 = sc_stats c"
    by auto
  define s1 where "s1 = snd (processRelationships H src ty dep t [item] s)"
  have r1: "emitted s1 = emitted s @ [edge src tgt ty dep]"
    "deduplicator s1 = deduplicator s3"
    "duplicatesSkipped (sc_stats s1) = duplicatesSkipped (sc_stats s)"
    using process_single [OF assms(4) p1(1) [unfolded c_def]] p1(3,4,5)
    by (simp_all add: s1_def emitted_def c_def count_discovered_keeps)
  define c' where "c' = count_discovered [item] s1"
  have h': "holds H Follows (did src @ '':'' @ v_did tgt) (t + 86400 * 7) (deduplicator c')"
    using p1(2) r1(2) by (simp add: c'_def count_discovered_keeps)
  from process_dup [OF h' assms(5) nd, of ty' dep "[]" "[]"]
  obtain s4 where p2:
    "process_relationship H src ty' dep t' tgt ([], [], c') = ([], [], s4)"
    "currentBatch s4 = currentBatch c'" "savedBatches s4 = savedBatches c'"
    "duplicatesSkipped (sc_stats s4) = duplicatesSkipped (sc_stats c') + 1"
    by auto
  have r2: "emitted (snd (processRelationships H src ty' dep t' [item] s1)) = emitted s1"
    "duplicatesSkipped (sc_stats (snd (processRelationships H src ty' dep t' [item] s1)))
       = duplicatesSkipped (sc_stats s1) + 1"
    using process_single [OF assms(4) p2(1) [unfolded c'_def]] p2(2,3,4)
    by (simp_all add: emitted_def c'_def count_discovered_keeps)
  show ?thesis
    using r1 r2 by (simp add: s1_def)
qed

lemma crawl_start_ready:
  "isInitialized (deduplicator crawl_start)" "redisUp (deduplicator crawl_start)"
  "redis (deduplicator crawl_start) k = None" "emitted crawl_start = []"
  "duplicatesSkipped (sc_stats crawl_start) = 0"
  by (simp_all add: crawl_start_def dedup_ready_def emitted_def zero_scraper_stats_def)

theorem second_direction_dropped_witness:
  "emitted (snd (processRelationships example_hashing alice Following 0 1 [bob_item]
             (snd (processRelationships example_hashing alice Follower 0 0 [bob_item] crawl_start))))
     = [edge alice bob_valid Follower 0]
   \<and> duplicatesSkipped (sc_stats
         (snd (processRelationships example_hashing alice Following 0 1 [bob_item]
             (snd (processRelationships example_hashing alice Follower 0 0 [bob_item] crawl_start)))))
     = 1"
proof -
  have e: "(1::nat) \<le> 0 + 86400 * 7"
    by simp
  show ?thesis
    using second_direction_dropped
      [OF crawl_start_ready(1,2,3) validateBatch_bob e,
       where H = example_hashing and src = alice and ty' = Following and dep = 0 and ty = Follower]
    by (simp add: crawl_start_ready)
qed

section \<open>Relationships scraper: checkpoint and resume\<close>

lemma saveCheckpoint_nothing: "saveCheckpoint currentDepth s = s"
  by (simp add: saveCheckpoint_def checkpointManager_saveCheckpoint_def)

lemma loadCheckpoint_crawl_start:
  "loadCheckpoint ''relationships_scraper'' (checkpointManager crawl_start)
     = (None, checkpointManager crawl_start)"
  by (simp add: loadCheckpoint_def crawl_start_def CheckpointManager_new_def)

lemma loadInitialUserQueue_crawl_start:
  "loadInitialUserQueue [[alice]] crawl_start = Inr resumed_crawl"
  by (simp add: loadInitialUserQueue_def Let_def crawl_start_def resumed_crawl_def
      example_options_def Map_set_def alice_def)

lemma start_prepare_crawl_start:
  "start_prepare True [[alice]] crawl_start = Inr resumed_crawl"
  by (simp add: start_prepare_def loadCheckpoint_crawl_start loadInitialUserQueue_crawl_start)

text \<open>
  C2 at a crawl that has visited one user and has one user queued at depth 1. Its
  \<open>saveCheckpoint\<close> leaves the scraper and the checkpoint directory as they were: the
  call of \<open>checkpointManager.saveCheckpoint\<close> raises and the error is caught, so nothing is
  written. A new, initialized scraper on that directory that starts with \<open>resume\<close> finds no
  checkpoint and loads the seed users instead: its visited set is empty where the saved
  one held the user, and its queue at depth 1 is empty where the saved one held a user.
\<close>

theorem checkpoint_resume_loses_frontier:
  "saveCheckpoint 1 mid_crawl = mid_crawl
   \<and> files (checkpointManager (saveCheckpoint 1 mid_crawl)) = files (checkpointManager crawl_start)
   \<and> start_prepare True [[alice]] crawl_start = Inr resumed_crawl
   \<and> processedUsers mid_crawl = [''did:plc:alice'']
   \<and> processedUsers resumed_crawl = []
   \<and> map_of (depthQueues mid_crawl) 1 = Some [bob]
   \<and> map_of (depthQueues resumed_crawl) 1 = Some []"
proof -
  have dir: "files (checkpointManager mid_crawl) = files (checkpointManager crawl_start)"
    by (simp add: mid_crawl_def)
  have visited: "processedUsers mid_crawl = [''did:plc:alice'']"
    "processedUsers resumed_crawl = []"
    by (simp_all add: mid_crawl_def resumed_crawl_def crawl_start_def alice_def)
  have queue: "map_of (depthQueues mid_crawl) 1 = Some [bob]"
    "map_of (depthQueues resumed_crawl) 1 = Some []"
    by (simp_all add: mid_crawl_def resumed_crawl_def)
  show ?thesis
    using dir visited queue
    by (simp add: saveCheckpoint_nothing start_prepare_crawl_start)
qed

section \<open>Store unreachable at start-up\<close>

text \<open>
  C8, as amended. With the store unreachable when the crawl starts:
  \<open>ProxyManager.initialize\<close> returns normally and leaves a manager that was not
  initialized before without a client, and the scraper's \<open>saveCheckpoint\<close> returns
  normally and changes nothing. But \<open>Deduplicator.initialize\<close> raises the connection
  error, and \<open>RelationshipsScraper.initialize\<close> raises it in turn, so the crawl does not
  start.
\<close>

theorem store_unreachable_at_startup:
  "ProxyManager_initialize False validProxies pm
     = Inr (if pm_isInitialized pm then pm else pm\<lparr>redisClient := False\<rparr>)
   \<and> saveCheckpoint currentDepth s = s
   \<and> Deduplicator_initialize False d = Inl RedisError
   \<and> RelationshipsScraper_initialize False s = Inl RedisError"
  by (simp add: ProxyManager_initialize_def saveCheckpoint_nothing
      Deduplicator_initialize_def RelationshipsScraper_initialize_def)

text \<open>
  C8 as stated fails: with the store unreachable, the initialization of a new
  deduplicator ends in the connection error.
\<close>

theorem initialize_raises_when_unreachable:
  "Deduplicator_initialize False (Deduplicator_new Map.empty) = Inl RedisError"
  by (simp add: Deduplicator_initialize_def)

end
